theory Spec2Isabelle
  imports Complex_Main "HOL-Library.Word"
begin

unbundle bit_operations_syntax

section \<open>The axis supervisor of Firmware/MotorControl/axis.cpp\<close>

text \<open>
  A shallow embedding of \<^verbatim>\<open>axis.cpp\<close>. The members of \<^verbatim>\<open>Axis\<close> and of its
  sub-components that the file reads or writes are record fields; every member
  function becomes a function from the axis state to a result and the new state.
  The 32-bit members (\<^verbatim>\<open>error_\<close>, the two watchdog counters) are \<open>32 word\<close>.
  A member \<^verbatim>\<open>name_\<close> of the source is the field \<open>name\<close> here.
  A C \<^verbatim>\<open>float\<close> is a \<open>real\<close>; infinities and NaN are not modelled. The
  single-precision rounding of an arithmetic result is written out (\<open>binary32\<close>
  below) in \<^verbatim>\<open>step_cb\<close> and in \<^verbatim>\<open>update_watchdog_settings\<close>, where the value that
  is stored is what matters; the arithmetic inside the tick bodies of the lock-in
  spin and of the control modes is taken as exact.
\<close>

subsection \<open>Enumerations\<close>

datatype State_t =
    AXIS_STATE_UNDEFINED
  | AXIS_STATE_IDLE
  | AXIS_STATE_STARTUP_SEQUENCE
  | AXIS_STATE_FULL_CALIBRATION_SEQUENCE
  | AXIS_STATE_MOTOR_CALIBRATION
  | AXIS_STATE_ENCODER_INDEX_SEARCH
  | AXIS_STATE_ENCODER_DIR_FIND
  | AXIS_STATE_ENCODER_OFFSET_CALIBRATION
  | AXIS_STATE_LOCKIN_SPIN
  | AXIS_STATE_SENSORLESS_CONTROL
  | AXIS_STATE_CLOSED_LOOP_CONTROL
  | AXIS_STATE_OPEN_LOOP_CONTROL
  | AXIS_STATE_PWM_TEST

datatype LockinState_t =
    LOCKIN_STATE_INACTIVE
  | LOCKIN_STATE_RAMP
  | LOCKIN_STATE_ACCELERATE
  | LOCKIN_STATE_CONST_VEL

subsection \<open>Calls that leave the file\<close>

text \<open>
  Every call from \<^verbatim>\<open>axis.cpp\<close> into code outside the file, and every assignment
  to \<^verbatim>\<open>lockin_state_\<close>, is recorded in a history (the ghost field \<open>trace\<close> below), in
  program order. The history is what makes "is invoked", "never runs" and
  "before" statable.
\<close>

datatype event =
    Ev_safety_critical_disarm_motor_pwm
  | Ev_Motor_arm
  | Ev_Motor_update real real real
  | Ev_Motor_do_checks
  | Ev_Motor_pwm_test real
  | Ev_Motor_run_calibration
  | Ev_Encoder_update
  | Ev_Encoder_do_checks
  | Ev_Encoder_run_index_search
  | Ev_Encoder_run_direction_find
  | Ev_Encoder_run_offset_calibration
  | Ev_Encoder_set_idx_subscribe bool
  | Ev_SensorlessEstimator_update
  | Ev_Controller_update real real
  | Ev_osSignalWait
  | Ev_gpio_init nat
  | Ev_gpio_deinit nat
  | Ev_gpio_subscribe nat
  | Ev_lockin_state LockinState_t

subsection \<open>The members of Axis and of its sub-components\<close>

record LockinConfig_t =
  current :: real
  ramp_time :: real
  ramp_distance :: real
  accel :: real
  vel :: real
  finish_distance :: real
  finish_on_vel :: bool
  finish_on_distance :: bool
  finish_on_enc_idx :: bool

record Config_t =
  startup_motor_calibration :: bool
  startup_encoder_index_search :: bool
  startup_encoder_offset_calibration :: bool
  startup_closed_loop_control :: bool
  startup_sensorless_control :: bool
  enable_step_dir :: bool
  counts_per_step :: real
  step_gpio_num :: nat
  dir_gpio_num :: nat
  watchdog_timeout :: real
  lockin :: LockinConfig_t

record Motor_Config_t =
  phase_locked :: bool
  direction :: int
  pole_pairs :: int

record Motor =
  motor_config :: Motor_Config_t
  is_armed :: bool
  phase_setpoint :: real

record Encoder_Config_t =
  cpr :: int
  use_index :: bool
  idx_search_unidirectional :: bool

record Encoder =
  encoder_config :: Encoder_Config_t
  index_found :: bool
  is_ready :: bool
  pos_estimate :: real
  vel_estimate :: real
  phase :: real

record SensorlessEstimator =
  pll_pos :: real
  sensorless_vel_estimate :: real
  sensorless_phase :: real

record Controller =
  control_mode :: int
  pos_setpoint :: real
  vel_setpoint :: real
  current_setpoint :: real

text \<open>
  \<open>task_chain\<close> is the C array \<^verbatim>\<open>task_chain_\<close>; its capacity is declared in the
  header and is the length of the list. \<^verbatim>\<open>current_state_\<close> is a C++ reference to
  \<^verbatim>\<open>task_chain_[0]\<close>, so it is not a field of its own but the
  function \<open>current_state\<close>. \<open>step_gpio\<close> and
  \<open>dir_gpio\<close> are pointers into \<^verbatim>\<open>gpios[]\<close>: \<open>None\<close> is \<^verbatim>\<open>nullptr\<close>.
\<close>

record Axis =
  motor :: Motor
  encoder :: Encoder
  sensorless_estimator :: SensorlessEstimator
  controller :: Controller
  config :: Config_t
  error :: "32 word"
  requested_state :: State_t
  task_chain :: "State_t list"
  lockin_state :: LockinState_t
  step_dir_active :: bool
  step_gpio :: "nat option"
  dir_gpio :: "nat option"
  watchdog_reset_value :: "32 word"
  watchdog_current_value :: "32 word"
  trace :: "event list"

definition current_state :: "Axis \<Rightarrow> State_t" where
  "current_state a = task_chain a ! 0"

definition set_current_state :: "State_t \<Rightarrow> Axis \<Rightarrow> Axis" where
  "set_current_state s a = a\<lparr>task_chain := (task_chain a)[0 := s]\<rparr>"

subsection \<open>What axis.cpp takes from the rest of the firmware\<close>

text \<open>
  The values of the \<^verbatim>\<open>Error_t\<close> bits, of \<^verbatim>\<open>CTRL_MODE_POSITION_CONTROL\<close> and of the
  timing constants are declared in headers, and the sub-components' member
  functions are defined in other files. They are parameters here: every theorem
  below holds for all of them. A member function of a sub-component may read and
  change the axis (it holds a pointer to it) and returns its result; the second
  axis of the board, read by the phase-locked open loop through the global
  \<^verbatim>\<open>axes[]\<close>, and the board-level globals read by \<^verbatim>\<open>do_checks\<close> are functions of the
  moment at which they are read.
\<close>

record world =
  ERROR_INVALID_STATE :: "32 word"
  ERROR_DC_BUS_UNDER_VOLTAGE :: "32 word"
  ERROR_DC_BUS_OVER_VOLTAGE :: "32 word"
  ERROR_BRAKE_RESISTOR_DISARMED :: "32 word"
  ERROR_MOTOR_DISARMED :: "32 word"
  ERROR_CONTROLLER_FAILED :: "32 word"
  ERROR_POS_CTRL_DURING_SENSORLESS :: "32 word"
  ERROR_WATCHDOG_TIMER_EXPIRED :: "32 word"
  CTRL_MODE_POSITION_CONTROL :: int
  current_meas_hz :: nat
  current_meas_period :: real
  num_gpios :: nat
  safety_critical_disarm_motor_pwm :: "Axis \<Rightarrow> unit \<times> Axis"
  Motor_arm :: "Axis \<Rightarrow> bool \<times> Axis"
  Motor_update :: "real \<Rightarrow> real \<Rightarrow> real \<Rightarrow> Axis \<Rightarrow> bool \<times> Axis"
  Motor_do_checks :: "Axis \<Rightarrow> unit \<times> Axis"
  Motor_pwm_test :: "real \<Rightarrow> Axis \<Rightarrow> bool \<times> Axis"
  Motor_run_calibration :: "Axis \<Rightarrow> bool \<times> Axis"
  Encoder_update :: "Axis \<Rightarrow> unit \<times> Axis"
  Encoder_do_checks :: "Axis \<Rightarrow> unit \<times> Axis"
  Encoder_run_index_search :: "Axis \<Rightarrow> bool \<times> Axis"
  Encoder_run_direction_find :: "Axis \<Rightarrow> bool \<times> Axis"
  Encoder_run_offset_calibration :: "Axis \<Rightarrow> bool \<times> Axis"
  Encoder_set_idx_subscribe :: "bool \<Rightarrow> Axis \<Rightarrow> unit \<times> Axis"
  SensorlessEstimator_update :: "Axis \<Rightarrow> unit \<times> Axis"
  Controller_update :: "real \<Rightarrow> real \<Rightarrow> Axis \<Rightarrow> (bool \<times> real) \<times> Axis"
  osSignalWait :: "Axis \<Rightarrow> bool \<times> Axis"
  gpio_read :: "nat \<Rightarrow> Axis \<Rightarrow> bool"
  other_axis :: "Axis \<Rightarrow> Axis"
  brake_resistor_enabled :: "Axis \<Rightarrow> bool"
  brake_resistor_armed :: "Axis \<Rightarrow> bool"
  vbus_voltage :: "Axis \<Rightarrow> real"
  dc_bus_undervoltage_trip_level :: "Axis \<Rightarrow> real"
  dc_bus_overvoltage_trip_level :: "Axis \<Rightarrow> real"

text \<open>
  A call into another file: the callee may change the axis as it likes, except
  for the history (which it cannot see) and for the task chain, which only the
  control thread writes. The call is appended to the history.
\<close>

definition ext_call :: "event \<Rightarrow> (Axis \<Rightarrow> 'r \<times> Axis) \<Rightarrow> Axis \<Rightarrow> 'r \<times> Axis" where
  "ext_call ev f a =
     (case f a of (r, a') \<Rightarrow>
        (r, a'\<lparr>task_chain := task_chain a, trace := trace a @ [ev]\<rparr>))"

definition log_event :: "event \<Rightarrow> Axis \<Rightarrow> Axis" where
  "log_event ev a = a\<lparr>trace := trace a @ [ev]\<rparr>"

subsection \<open>Single-precision arithmetic\<close>

text \<open>
  The result of a \<^verbatim>\<open>float\<close> operation is the exact result rounded to the nearest
  IEEE 754 binary32 value, ties to the even significand: 24 significant bits, the
  spacing of the subnormal numbers below \<open>2 powr - 126\<close>. Overflow to infinity is
  not modelled: \<open>binary32 x\<close> is the result of the program only for \<open>x\<close> in
  \<open>float_range\<close>, below the least magnitude that rounds to infinity.
\<close>

definition round_half_even :: "real \<Rightarrow> int" where
  "round_half_even r =
     (let f = \<lfloor>r\<rfloor> in
      if r - of_int f < 1 / 2 then f
      else if 1 / 2 < r - of_int f then f + 1
      else if even f then f else f + 1)"

definition binary32 :: "real \<Rightarrow> real" where
  "binary32 x =
     (if x = 0 then 0
      else
        (let e = max \<lfloor>log 2 \<bar>x\<bar>\<rfloor> (- 126);
             ulp = 2 powr (of_int e - 23)
         in of_int (round_half_even (x / ulp)) * ulp))"

definition float_range :: "real \<Rightarrow> bool" where
  "float_range x = (\<bar>x\<bar> < 2 ^ 128 - 2 ^ 103)"

subsection \<open>Watchdog\<close>

definition UINT32_MAX :: "32 word" where
  "UINT32_MAX = - 1"

definition watchdog_feed :: "Axis \<Rightarrow> Axis" where
  "watchdog_feed a = a\<lparr>watchdog_current_value := watchdog_reset_value a\<rparr>"

definition watchdog_check :: "world \<Rightarrow> Axis \<Rightarrow> bool \<times> Axis" where
  "watchdog_check w a =
     (if watchdog_reset_value a = 0 then (True, a)
      else if watchdog_current_value a > 0
        then (True, a\<lparr>watchdog_current_value := watchdog_current_value a - 1\<rparr>)
        else (False, a\<lparr>error := error a OR ERROR_WATCHDOG_TIMER_EXPIRED w\<rparr>))"

text \<open>
  \<^verbatim>\<open>UINT32_MAX / (current_meas_hz+1)\<close> is an integer division, whose quotient is
  converted to \<^verbatim>\<open>float\<close> for the comparison. In the last branch
  \<^verbatim>\<open>current_meas_hz\<close> is converted to \<^verbatim>\<open>float\<close>, the product is a \<^verbatim>\<open>float\<close>
  product, and the cast truncates it.
\<close>

definition update_watchdog_settings :: "world \<Rightarrow> Axis \<Rightarrow> Axis" where
  "update_watchdog_settings w a =
     watchdog_feed
       (if watchdog_timeout (config a) \<le> 0
          then a\<lparr>watchdog_reset_value := 0\<rparr>
        else if watchdog_timeout (config a)
                  \<ge> binary32 (real (unat UINT32_MAX div (current_meas_hz w + 1)))
          then a\<lparr>watchdog_reset_value := UINT32_MAX\<rparr>
        else a\<lparr>watchdog_reset_value :=
                 of_int \<lfloor>binary32 (watchdog_timeout (config a)
                                    * binary32 (real (current_meas_hz w)))\<rfloor>\<rparr>)"

text \<open>The three operations on the watchdog counters, and a run of them.\<close>

datatype watchdog_op = Op_feed | Op_check | Op_update_settings Config_t

fun watchdog_step :: "world \<Rightarrow> Axis \<Rightarrow> watchdog_op \<Rightarrow> Axis" where
  "watchdog_step w a Op_feed = watchdog_feed a"
| "watchdog_step w a Op_check = snd (watchdog_check w a)"
| "watchdog_step w a (Op_update_settings c) = update_watchdog_settings w (a\<lparr>config := c\<rparr>)"

definition watchdog_run :: "world \<Rightarrow> Axis \<Rightarrow> watchdog_op list \<Rightarrow> Axis" where
  "watchdog_run w a ops = foldl (watchdog_step w) a ops"


subsection \<open>Faults and loops\<close>

text \<open>
  Two things the C++ leaves undefined are results of their own here: calling a
  member through a null GPIO pointer, and writing past the end of the task chain.
  A loop that waits for the outside world may never end: every loop takes a bound
  on the number of its iterations and yields \<open>Out_of_fuel\<close>, with the state reached,
  when the bound is used up.
\<close>

datatype fault = Null_pointer_dereference | Array_index_out_of_bounds

datatype 'r outcome = Returned 'r Axis | Out_of_fuel Axis

fun outcome_axis :: "'r outcome \<Rightarrow> Axis" where
  "outcome_axis (Returned r a) = a"
| "outcome_axis (Out_of_fuel a) = a"

subsection \<open>Helpers declared outside axis.cpp\<close>

text \<open>
  Modelled from the spec: \<^verbatim>\<open>check_for_errors\<close> is defined in the header, which is
  not part of the sources at hand. The spec has it return "no errors latched",
  and speaks of a tick that "observes \<^verbatim>\<open>error_ != 0\<close>".
\<close>

definition check_for_errors :: "Axis \<Rightarrow> bool" where
  "check_for_errors a = (error a = 0)"

text \<open>
  Modelled from the spec: \<^verbatim>\<open>wrap_pm_pi\<close> is defined in \<^verbatim>\<open>utils.h\<close>, which is not part
  of the sources at hand. The spec only names it, as the wrapping of an angle into
  plus/minus pi: the representative of the angle modulo \<open>2 * pi\<close> in \<open>[-pi, pi)\<close>.
\<close>

definition wrap_pm_pi :: "real \<Rightarrow> real" where
  "wrap_pm_pi x = x - 2 * pi * of_int \<lfloor>(x + pi) / (2 * pi)\<rfloor>"

subsection \<open>Step/direction input\<close>

definition step_cb :: "world \<Rightarrow> Axis \<Rightarrow> fault + Axis" where
  "step_cb w a =
     (if step_dir_active a then
        (case dir_gpio a of
           None \<Rightarrow> Inl Null_pointer_dereference
         | Some g \<Rightarrow>
             (let dir_pin = gpio_read w g a;
                  dir = (if dir_pin then 1 else - 1)
              in Inr (a\<lparr>controller := (controller a)
                          \<lparr>pos_setpoint :=
                             binary32 (pos_setpoint (controller a)
                                         + binary32 (dir * counts_per_step (config a)))\<rparr>\<rparr>)))
      else Inr a)"

definition gpio_deinit_if :: "nat option \<Rightarrow> Axis \<Rightarrow> Axis" where
  "gpio_deinit_if g a = (case g of None \<Rightarrow> a | Some n \<Rightarrow> log_event (Ev_gpio_deinit n) a)"

definition decode_step_dir_pins :: "world \<Rightarrow> Axis \<Rightarrow> Axis" where
  "decode_step_dir_pins w a =
     (let a1 = gpio_deinit_if (step_gpio a) a;
          a2 = gpio_deinit_if (dir_gpio a1) a1;
          a3 = (if step_gpio_num (config a2) < num_gpios w
                  then a2\<lparr>step_gpio := Some (step_gpio_num (config a2))\<rparr>
                  else a2\<lparr>step_gpio := None\<rparr>)
      in (if dir_gpio_num (config a3) < num_gpios w
            then a3\<lparr>dir_gpio := Some (dir_gpio_num (config a3))\<rparr>
            else a3\<lparr>dir_gpio := None\<rparr>))"

definition set_step_dir_active :: "bool \<Rightarrow> Axis \<Rightarrow> Axis" where
  "set_step_dir_active active a =
     (if active then
        (let a1 = (case dir_gpio a of None \<Rightarrow> a
                   | Some d \<Rightarrow> log_event (Ev_gpio_init d) a);
             a2 = (case step_gpio a1 of None \<Rightarrow> a1
                   | Some s \<Rightarrow> log_event (Ev_gpio_subscribe s) (log_event (Ev_gpio_init s) a1))
         in a2\<lparr>step_dir_active := True\<rparr>)
      else
        (let a1 = a\<lparr>step_dir_active := False\<rparr>;
             a2 = gpio_deinit_if (step_gpio a1) a1
         in gpio_deinit_if (dir_gpio a2) a2))"

subsection \<open>Checks and estimator updates\<close>

definition set_error :: "32 word \<Rightarrow> Axis \<Rightarrow> Axis" where
  "set_error e a = a\<lparr>error := error a OR e\<rparr>"

definition do_checks :: "world \<Rightarrow> Axis \<Rightarrow> bool \<times> Axis" where
  "do_checks w a =
     (let a1 = (if brake_resistor_enabled w a \<and> \<not> brake_resistor_armed w a
                  then set_error (ERROR_BRAKE_RESISTOR_DISARMED w) a else a);
          a2 = (if current_state a1 \<noteq> AXIS_STATE_IDLE \<and> \<not> is_armed (motor a1)
                  then set_error (ERROR_MOTOR_DISARMED w) a1 else a1);
          a3 = (if \<not> (vbus_voltage w a2 \<ge> dc_bus_undervoltage_trip_level w a2)
                  then set_error (ERROR_DC_BUS_UNDER_VOLTAGE w) a2 else a2);
          a4 = (if \<not> (vbus_voltage w a3 \<le> dc_bus_overvoltage_trip_level w a3)
                  then set_error (ERROR_DC_BUS_OVER_VOLTAGE w) a3 else a3);
          a5 = snd (ext_call Ev_Motor_do_checks (Motor_do_checks w) a4);
          a6 = snd (ext_call Ev_Encoder_do_checks (Encoder_do_checks w) a5)
      in (check_for_errors a6, a6))"

definition do_updates :: "world \<Rightarrow> Axis \<Rightarrow> bool \<times> Axis" where
  "do_updates w a =
     (let a1 = snd (ext_call Ev_Encoder_update (Encoder_update w) a);
          a2 = snd (ext_call Ev_SensorlessEstimator_update (SensorlessEstimator_update w) a1)
      in (check_for_errors a2, a2))"

definition wait_for_current_meas :: "world \<Rightarrow> Axis \<Rightarrow> bool \<times> Axis" where
  "wait_for_current_meas w a = ext_call Ev_osSignalWait (osSignalWait w) a"

subsection \<open>The control-loop scaffold\<close>

text \<open>
  Modelled from the spec: \<^verbatim>\<open>run_control_loop\<close> is a template of the header, which
  is not part of the sources at hand. The spec (4.1) gives its six steps, repeated
  until one of them ends the loop: wait for the current measurement (a missed one
  ends the loop unless the axis is idle), update the estimators, run the tick body,
  run the checks, check the watchdog, and leave when a state is requested. The
  callers in \<^verbatim>\<open>axis.cpp\<close> ignore what it returns. The tick bodies are C++ closures
  over local variables of the caller; the locals are the argument \<open>l\<close>.
\<close>

fun run_control_loop ::
  "world \<Rightarrow> ('l \<Rightarrow> Axis \<Rightarrow> bool \<times> 'l \<times> Axis) \<Rightarrow> nat \<Rightarrow> 'l \<Rightarrow> Axis \<Rightarrow> 'l outcome" where
  "run_control_loop w update_handler 0 l a = Out_of_fuel a"
| "run_control_loop w update_handler (Suc n) l a =
     (case wait_for_current_meas w a of (signalled, a1) \<Rightarrow>
      if \<not> signalled \<and> current_state a1 \<noteq> AXIS_STATE_IDLE then Returned l a1
      else case do_updates w a1 of (updates_ok, a2) \<Rightarrow>
      if \<not> updates_ok then Returned l a2
      else case update_handler l a2 of (continue, l', a3) \<Rightarrow>
      if \<not> continue then Returned l' a3
      else case do_checks w a3 of (checks_ok, a4) \<Rightarrow>
      if \<not> checks_ok then Returned l' a4
      else case watchdog_check w a4 of (watchdog_ok, a5) \<Rightarrow>
      if \<not> watchdog_ok then Returned l' a5
      else if requested_state a5 \<noteq> AXIS_STATE_UNDEFINED then Returned l' a5
      else run_control_loop w update_handler n l' a5)"

text \<open>A tick body that captures only \<^verbatim>\<open>this\<close> has no locals.\<close>

definition no_locals :: "(Axis \<Rightarrow> bool \<times> Axis) \<Rightarrow> unit \<Rightarrow> Axis \<Rightarrow> bool \<times> unit \<times> Axis" where
  "no_locals body l a = (case body a of (continue, a') \<Rightarrow> (continue, l, a'))"

text \<open>The end of every task: \<^verbatim>\<open>return check_for_errors();\<close> once the loop has returned.\<close>

definition return_check_for_errors :: "'l outcome \<Rightarrow> bool outcome" where
  "return_check_for_errors r =
     (case r of Out_of_fuel a \<Rightarrow> Out_of_fuel a
      | Returned l a \<Rightarrow> Returned (check_for_errors a) a)"


subsection \<open>Lock-in spin\<close>

text \<open>
  The locals of \<^verbatim>\<open>run_lockin_spin\<close> that its closures capture: \<open>x\<close> for the ramp,
  and the triple (distance, phase, vel) for the two spin phases, bound below as
  \<open>distance\<close>, \<open>phase_now\<close> and \<open>vel_now\<close>. The value
  commanded at a ramp tick and the advance of \<open>x\<close> are named, so that they can be
  spoken of without the motor.
\<close>

definition ramp_phase :: "LockinConfig_t \<Rightarrow> real \<Rightarrow> real" where
  "ramp_phase lk x = wrap_pm_pi (ramp_distance lk * x)"

definition ramp_I_mag :: "LockinConfig_t \<Rightarrow> real \<Rightarrow> real" where
  "ramp_I_mag lk x = current lk * x"

definition ramp_advance :: "world \<Rightarrow> LockinConfig_t \<Rightarrow> real \<Rightarrow> real" where
  "ramp_advance w lk x = x + current_meas_period w / ramp_time lk"

definition ramp_tick :: "world \<Rightarrow> real \<Rightarrow> Axis \<Rightarrow> bool \<times> real \<times> Axis" where
  "ramp_tick w x a =
     (let phase_now = ramp_phase (lockin (config a)) x;
          I_mag = ramp_I_mag (lockin (config a)) x;
          x' = ramp_advance w (lockin (config a)) x
      in case ext_call (Ev_Motor_update I_mag phase_now 0) (Motor_update w I_mag phase_now 0) a of
           (ok, a') \<Rightarrow> if \<not> ok then (False, x', a') else (x' < 1, x', a'))"

definition spin_done :: "bool \<Rightarrow> real \<times> real \<times> real \<Rightarrow> Axis \<Rightarrow> bool" where
  "spin_done vel_override l a =
     (case l of (distance, phase_now, vel_now) \<Rightarrow>
        (let done0 = False;
             done1 = (if finish_on_vel (lockin (config a)) \<or> vel_override
                        then done0 \<or> \<bar>vel_now\<bar> \<ge> \<bar>vel (lockin (config a))\<bar> else done0);
             done2 = (if finish_on_distance (lockin (config a))
                        then done1 \<or> \<bar>distance\<bar> \<ge> \<bar>finish_distance (lockin (config a))\<bar>
                        else done1);
             done3 = (if finish_on_enc_idx (lockin (config a))
                        then done2 \<or> index_found (encoder a) else done2)
         in done3))"

definition accelerate_tick ::
  "world \<Rightarrow> real \<times> real \<times> real \<Rightarrow> Axis \<Rightarrow> bool \<times> (real \<times> real \<times> real) \<times> Axis" where
  "accelerate_tick w l a =
     (case l of (distance, phase_now, vel_now) \<Rightarrow>
        (let vel' = vel_now + accel (lockin (config a)) * current_meas_period w;
             distance' = distance + vel' * current_meas_period w;
             phase_now' = wrap_pm_pi (phase_now + vel' * current_meas_period w);
             l' = (distance', phase_now', vel')
         in case ext_call (Ev_Motor_update (current (lockin (config a))) phase_now' vel')
                   (Motor_update w (current (lockin (config a))) phase_now' vel') a of
              (ok, a') \<Rightarrow> if \<not> ok then (False, l', a') else (\<not> spin_done True l' a', l', a')))"

definition const_vel_tick ::
  "world \<Rightarrow> real \<times> real \<times> real \<Rightarrow> Axis \<Rightarrow> bool \<times> (real \<times> real \<times> real) \<times> Axis" where
  "const_vel_tick w l a =
     (case l of (distance, phase_now, vel_now) \<Rightarrow>
        (let distance' = distance + vel_now * current_meas_period w;
             phase_now' = wrap_pm_pi (phase_now + vel_now * current_meas_period w);
             l' = (distance', phase_now', vel_now)
         in case ext_call (Ev_Motor_update (current (lockin (config a))) phase_now' vel_now)
                   (Motor_update w (current (lockin (config a))) phase_now' vel_now) a of
              (ok, a') \<Rightarrow> if \<not> ok then (False, l', a') else (\<not> spin_done False l' a', l', a')))"

definition set_lockin_state :: "LockinState_t \<Rightarrow> Axis \<Rightarrow> Axis" where
  "set_lockin_state s a = log_event (Ev_lockin_state s) (a\<lparr>lockin_state := s\<rparr>)"

text \<open>
  \<^verbatim>\<open>run_lockin_spin\<close> from the end of the accelerate loop (the index subscription,
  the constant-velocity phase, the reset of \<^verbatim>\<open>lockin_state_\<close> and the return).
\<close>

definition idx_subscribe_if_not_found :: "world \<Rightarrow> Axis \<Rightarrow> Axis" where
  "idx_subscribe_if_not_found w a =
     (if \<not> index_found (encoder a)
        then snd (ext_call (Ev_Encoder_set_idx_subscribe True)
                    (Encoder_set_idx_subscribe w True) a)
      else a)"

definition lockin_spin_const_vel ::
  "world \<Rightarrow> nat \<Rightarrow> real \<times> real \<times> real \<Rightarrow> Axis \<Rightarrow> bool outcome" where
  "lockin_spin_const_vel w fuel l a =
     (let a1 = idx_subscribe_if_not_found w a
      in if \<not> spin_done False l a1 then
           (let a2 = set_lockin_state LOCKIN_STATE_CONST_VEL a1;
                l2 = (case l of (distance, phase_now, vel_now) \<Rightarrow>
                        (distance, phase_now, vel (lockin (config a2))))
            in case run_control_loop w (const_vel_tick w) fuel l2 a2 of
                 Out_of_fuel a3 \<Rightarrow> Out_of_fuel a3
               | Returned l3 a3 \<Rightarrow>
                   (let a4 = set_lockin_state LOCKIN_STATE_INACTIVE a3
                    in Returned (check_for_errors a4) a4))
         else
           (let a4 = set_lockin_state LOCKIN_STATE_INACTIVE a1
            in Returned (check_for_errors a4) a4))"

definition run_lockin_spin :: "world \<Rightarrow> nat \<Rightarrow> Axis \<Rightarrow> bool outcome" where
  "run_lockin_spin w fuel a =
     (case run_control_loop w (ramp_tick w) fuel 0 (set_lockin_state LOCKIN_STATE_RAMP a) of
        Out_of_fuel a1 \<Rightarrow> Out_of_fuel a1
      | Returned x a1 \<Rightarrow>
          (let distance = ramp_distance (lockin (config a1));
               phase_now = wrap_pm_pi distance;
               vel_now = distance / ramp_time (lockin (config a1))
           in case run_control_loop w (accelerate_tick w) fuel (distance, phase_now, vel_now)
                     (set_lockin_state LOCKIN_STATE_ACCELERATE a1) of
                Out_of_fuel a2 \<Rightarrow> Out_of_fuel a2
              | Returned l a2 \<Rightarrow> lockin_spin_const_vel w fuel l a2))"

subsection \<open>Control modes\<close>

definition sensorless_tick :: "world \<Rightarrow> Axis \<Rightarrow> bool \<times> Axis" where
  "sensorless_tick w a =
     (if control_mode (controller a) \<ge> CTRL_MODE_POSITION_CONTROL w
        then (False, set_error (ERROR_POS_CTRL_DURING_SENSORLESS w) a)
      else
        (case ext_call (Ev_Controller_update (pll_pos (sensorless_estimator a))
                          (sensorless_vel_estimate (sensorless_estimator a)))
                (Controller_update w (pll_pos (sensorless_estimator a))
                          (sensorless_vel_estimate (sensorless_estimator a))) a of
           ((ok, current_setpoint_out), a1) \<Rightarrow>
             if \<not> ok then (False, set_error (ERROR_CONTROLLER_FAILED w) a1)
             else
               (case ext_call (Ev_Motor_update current_setpoint_out
                                 (sensorless_phase (sensorless_estimator a1))
                                 (sensorless_vel_estimate (sensorless_estimator a1)))
                       (Motor_update w current_setpoint_out
                                 (sensorless_phase (sensorless_estimator a1))
                                 (sensorless_vel_estimate (sensorless_estimator a1))) a1 of
                  (ok2, a2) \<Rightarrow> if \<not> ok2 then (False, a2) else (True, a2))))"

definition run_sensorless_control_loop :: "world \<Rightarrow> nat \<Rightarrow> Axis \<Rightarrow> bool outcome" where
  "run_sensorless_control_loop w fuel a =
     return_check_for_errors (run_control_loop w (no_locals (sensorless_tick w)) fuel () a)"

definition closed_loop_tick :: "world \<Rightarrow> Axis \<Rightarrow> bool \<times> Axis" where
  "closed_loop_tick w a =
     (case ext_call (Ev_Controller_update (pos_estimate (encoder a)) (vel_estimate (encoder a)))
             (Controller_update w (pos_estimate (encoder a)) (vel_estimate (encoder a))) a of
        ((ok, current_setpoint_out), a1) \<Rightarrow>
          if \<not> ok then (False, set_error (ERROR_CONTROLLER_FAILED w) a1)
          else
            (let phase_vel = 2 * pi * vel_estimate (encoder a1)
                               / real_of_int (cpr (encoder_config (encoder a1)))
                               * real_of_int (pole_pairs (motor_config (motor a1)))
             in case ext_call (Ev_Motor_update current_setpoint_out (phase (encoder a1)) phase_vel)
                       (Motor_update w current_setpoint_out (phase (encoder a1)) phase_vel) a1 of
                  (ok2, a2) \<Rightarrow> if \<not> ok2 then (False, a2) else (True, a2)))"

definition run_closed_loop_control_loop :: "world \<Rightarrow> nat \<Rightarrow> Axis \<Rightarrow> bool outcome" where
  "run_closed_loop_control_loop w fuel a =
     (let a1 = a\<lparr>controller := (controller a)\<lparr>pos_setpoint := pos_estimate (encoder a)\<rparr>\<rparr>;
          a2 = set_step_dir_active (enable_step_dir (config a1)) a1
      in case run_control_loop w (no_locals (closed_loop_tick w)) fuel () a2 of
           Out_of_fuel a3 \<Rightarrow> Out_of_fuel a3
         | Returned u a3 \<Rightarrow>
             (let a4 = set_step_dir_active False a3 in Returned (check_for_errors a4) a4))"

text \<open>
  \<^verbatim>\<open>other_axis\<close> is a copy of the sibling taken at the tick; its \<^verbatim>\<open>current_state_\<close>
  is the head of the sibling's task chain.
\<close>

definition open_loop_tick :: "world \<Rightarrow> Axis \<Rightarrow> bool \<times> Axis" where
  "open_loop_tick w a =
     (let r = (if \<not> phase_locked (motor_config (motor a)) then
                 (let phase_vel = 2 * pi * vel_setpoint (controller a)
                                    * real_of_int (pole_pairs (motor_config (motor a)))
                  in Some (phase_vel,
                       a\<lparr>motor := (motor a)\<lparr>phase_setpoint :=
                            wrap_pm_pi (phase_setpoint (motor a)
                                          + phase_vel * current_meas_period w)\<rparr>\<rparr>))
               else
                 (let other = other_axis w a in
                  if current_state other \<noteq> AXIS_STATE_OPEN_LOOP_CONTROL then None
                  else
                    (let phase_vel = 2 * pi * vel_setpoint (controller other)
                                       * real_of_int (pole_pairs (motor_config (motor other)))
                     in Some (phase_vel,
                          a\<lparr>motor := (motor a)\<lparr>phase_setpoint :=
                               phase_setpoint (motor other)\<rparr>\<rparr>))))
      in case r of
           None \<Rightarrow> (False, set_error (ERROR_INVALID_STATE w) a)
         | Some (phase_vel, a1) \<Rightarrow>
             (case ext_call (Ev_Motor_update (current_setpoint (controller a1))
                               (phase_setpoint (motor a1)) phase_vel)
                     (Motor_update w (current_setpoint (controller a1))
                               (phase_setpoint (motor a1)) phase_vel) a1 of
                (ok, a2) \<Rightarrow> if \<not> ok then (False, a2) else (True, a2)))"

definition run_open_loop_control_loop :: "world \<Rightarrow> nat \<Rightarrow> Axis \<Rightarrow> bool outcome" where
  "run_open_loop_control_loop w fuel a =
     (let a1 = set_step_dir_active (enable_step_dir (config a)) a
      in case run_control_loop w (no_locals (open_loop_tick w)) fuel () a1 of
           Out_of_fuel a2 \<Rightarrow> Out_of_fuel a2
         | Returned u a2 \<Rightarrow>
             (let a3 = set_step_dir_active False a2 in Returned (check_for_errors a3) a3))"

definition idle_tick :: "Axis \<Rightarrow> bool \<times> Axis" where
  "idle_tick a = (True, a)"

text \<open>The \<^verbatim>\<open>while\<close> of \<^verbatim>\<open>run_idle_loop\<close>: one scaffold run per iteration.\<close>

fun idle_while :: "world \<Rightarrow> nat \<Rightarrow> nat \<Rightarrow> Axis \<Rightarrow> unit outcome" where
  "idle_while w fuel 0 a = Out_of_fuel a"
| "idle_while w fuel (Suc n) a =
     (if requested_state a = AXIS_STATE_UNDEFINED then
        (case run_control_loop w (no_locals idle_tick) fuel () a of
           Out_of_fuel a' \<Rightarrow> Out_of_fuel a'
         | Returned u a' \<Rightarrow> idle_while w fuel n a')
      else Returned () a)"

definition run_idle_loop :: "world \<Rightarrow> nat \<Rightarrow> Axis \<Rightarrow> bool outcome" where
  "run_idle_loop w fuel a =
     return_check_for_errors
       (idle_while w fuel fuel
          (snd (ext_call Ev_safety_critical_disarm_motor_pwm
                  (safety_critical_disarm_motor_pwm w) a)))"


subsection \<open>The state machine\<close>

text \<open>\<^verbatim>\<open>task_chain_[pos++] = s\<close>, on the pair of the array and \<open>pos\<close>.\<close>

definition push_task :: "State_t \<Rightarrow> State_t list \<times> nat \<Rightarrow> State_t list \<times> nat" where
  "push_task s c = (case c of (tc, pos) \<Rightarrow> (tc[pos := s], pos + 1))"

text \<open>
  The first block of the loop body: loading the task chain for a pending request.
  A write past the end of the array (the source has no bounds check) is the fault
  \<open>Array_index_out_of_bounds\<close>.
\<close>

definition load_task_chain :: "world \<Rightarrow> Axis \<Rightarrow> fault + Axis" where
  "load_task_chain w a =
     (if requested_state a \<noteq> AXIS_STATE_UNDEFINED then
        (let c0 = (task_chain a, 0);
             c5 =
               (if requested_state a = AXIS_STATE_STARTUP_SEQUENCE then
                  (let c1 = (if startup_motor_calibration (config a)
                               then push_task AXIS_STATE_MOTOR_CALIBRATION c0 else c0);
                       c2 = (if startup_encoder_index_search (config a)
                                \<and> use_index (encoder_config (encoder a))
                               then push_task AXIS_STATE_ENCODER_INDEX_SEARCH c1 else c1);
                       c3 = (if startup_encoder_offset_calibration (config a)
                               then push_task AXIS_STATE_ENCODER_OFFSET_CALIBRATION c2 else c2);
                       c4 = (if startup_closed_loop_control (config a)
                               then push_task AXIS_STATE_CLOSED_LOOP_CONTROL c3
                             else if startup_sensorless_control (config a)
                               then push_task AXIS_STATE_SENSORLESS_CONTROL c3 else c3)
                   in push_task AXIS_STATE_IDLE c4)
                else if requested_state a = AXIS_STATE_FULL_CALIBRATION_SEQUENCE then
                  (let c1 = push_task AXIS_STATE_MOTOR_CALIBRATION c0;
                       c2 = (if use_index (encoder_config (encoder a))
                               then push_task AXIS_STATE_ENCODER_INDEX_SEARCH c1 else c1);
                       c3 = push_task AXIS_STATE_ENCODER_OFFSET_CALIBRATION c2
                   in push_task AXIS_STATE_IDLE c3)
                else if requested_state a \<noteq> AXIS_STATE_UNDEFINED then
                  push_task AXIS_STATE_IDLE (push_task (requested_state a) c0)
                else c0);
             c6 = push_task AXIS_STATE_UNDEFINED c5
         in if snd c6 > length (task_chain a) then Inl Array_index_out_of_bounds
            else Inr (a\<lparr>task_chain := fst c6,
                        requested_state := AXIS_STATE_UNDEFINED,
                        error := error a AND NOT (ERROR_INVALID_STATE w)\<rparr>))
      else Inr a)"

definition invalid_state_label :: "world \<Rightarrow> Axis \<Rightarrow> bool outcome" where
  "invalid_state_label w a = Returned False (set_error (ERROR_INVALID_STATE w) a)"

definition returned :: "'r \<times> Axis \<Rightarrow> 'r outcome" where
  "returned p = (case p of (r, a) \<Rightarrow> Returned r a)"

text \<open>The \<^verbatim>\<open>switch (current_state_)\<close>: the task that is run, and its status.\<close>

definition dispatch :: "world \<Rightarrow> nat \<Rightarrow> Axis \<Rightarrow> bool outcome" where
  "dispatch w fuel a =
     (case current_state a of
        AXIS_STATE_PWM_TEST \<Rightarrow>
          returned (ext_call (Ev_Motor_pwm_test 1) (Motor_pwm_test w 1) a)
      | AXIS_STATE_MOTOR_CALIBRATION \<Rightarrow>
          returned (ext_call Ev_Motor_run_calibration (Motor_run_calibration w) a)
      | AXIS_STATE_ENCODER_INDEX_SEARCH \<Rightarrow>
          if idx_search_unidirectional (encoder_config (encoder a))
               \<and> direction (motor_config (motor a)) = 0
            then invalid_state_label w a
          else returned (ext_call Ev_Encoder_run_index_search (Encoder_run_index_search w) a)
      | AXIS_STATE_ENCODER_DIR_FIND \<Rightarrow>
          returned (ext_call Ev_Encoder_run_direction_find (Encoder_run_direction_find w) a)
      | AXIS_STATE_ENCODER_OFFSET_CALIBRATION \<Rightarrow>
          returned (ext_call Ev_Encoder_run_offset_calibration
                      (Encoder_run_offset_calibration w) a)
      | AXIS_STATE_LOCKIN_SPIN \<Rightarrow>
          if direction (motor_config (motor a)) = 0 then invalid_state_label w a
          else run_lockin_spin w fuel a
      | AXIS_STATE_SENSORLESS_CONTROL \<Rightarrow>
          if direction (motor_config (motor a)) = 0 then invalid_state_label w a
          else
            (case run_lockin_spin w fuel a of
               Out_of_fuel a1 \<Rightarrow> Out_of_fuel a1
             | Returned status a1 \<Rightarrow>
                 if status then
                   run_sensorless_control_loop w fuel
                     (a1\<lparr>controller := (controller a1)
                           \<lparr>vel_setpoint := vel (lockin (config a1))\<rparr>\<rparr>)
                 else Returned status a1)
      | AXIS_STATE_CLOSED_LOOP_CONTROL \<Rightarrow>
          if direction (motor_config (motor a)) = 0 then invalid_state_label w a
          else if \<not> is_ready (encoder a) then invalid_state_label w a
          else run_closed_loop_control_loop w fuel a
      | AXIS_STATE_OPEN_LOOP_CONTROL \<Rightarrow>
          if direction (motor_config (motor a)) = 0 then invalid_state_label w a
          else run_open_loop_control_loop w fuel a
      | AXIS_STATE_IDLE \<Rightarrow>
          (case run_idle_loop w fuel a of
             Out_of_fuel a1 \<Rightarrow> Out_of_fuel a1
           | Returned idle_status a1 \<Rightarrow> returned (ext_call Ev_Motor_arm (Motor_arm w) a1))
      | _ \<Rightarrow> invalid_state_label w a)"

text \<open>
  \<^verbatim>\<open>memmove(task_chain_, task_chain_ + 1, sizeof(task_chain_) - sizeof(task_chain_[0]))\<close>
  copies all elements but the first one place down; the last slot is not written.
\<close>

definition memmove_task_chain :: "State_t list \<Rightarrow> State_t list" where
  "memmove_task_chain tc = (if tc = [] then [] else tl tc @ [last tc])"

text \<open>The last statement of the loop body.\<close>

definition advance_task_chain :: "bool \<Rightarrow> Axis \<Rightarrow> Axis" where
  "advance_task_chain status a =
     (if \<not> status then set_current_state AXIS_STATE_IDLE a
      else a\<lparr>task_chain := memmove_task_chain (task_chain a)\<rparr>)"

text \<open>
  One pass through the body of the \<^verbatim>\<open>for (;;)\<close> of \<^verbatim>\<open>run_state_machine_loop\<close>; the
  loop repeats it for ever. What precedes the loop (the wait for the thread
  handle, the allocation of the cogging map, the first \<^verbatim>\<open>motor_.arm()\<close>), the
  constructor, \<^verbatim>\<open>init\<close> and the thread and signal plumbing are not modelled.
\<close>

definition state_machine_iteration :: "world \<Rightarrow> nat \<Rightarrow> Axis \<Rightarrow> fault + bool outcome" where
  "state_machine_iteration w fuel a =
     (case load_task_chain w a of
        Inl f \<Rightarrow> Inl f
      | Inr a1 \<Rightarrow>
          Inr (case dispatch w fuel a1 of
                 Out_of_fuel a2 \<Rightarrow> Out_of_fuel a2
               | Returned status a2 \<Rightarrow> Returned status (advance_task_chain status a2)))"

text \<open>
  The task chain as the spec reads it: the entries before the first
  \<^verbatim>\<open>AXIS_STATE_UNDEFINED\<close>.
\<close>

definition pending_tasks :: "Axis \<Rightarrow> State_t list" where
  "pending_tasks a = takeWhile (\<lambda>s. s \<noteq> AXIS_STATE_UNDEFINED) (task_chain a)"


subsection \<open>The spec's reading of the start-up sequence and of a tick\<close>

text \<open>
  The tasks the spec lists for \<^verbatim>\<open>AXIS_STATE_STARTUP_SEQUENCE\<close>, in its words: the
  ordered subset of motor calibration, encoder index search (if the encoder uses
  its index), encoder offset calibration, and closed-loop or else sensorless
  control, each filtered by its \<^verbatim>\<open>startup_*\<close> flag. It is compared with what
  \<open>load_task_chain\<close> writes.
\<close>

definition startup_sequence_tasks :: "Axis \<Rightarrow> State_t list" where
  "startup_sequence_tasks a =
     (if startup_motor_calibration (config a) then [AXIS_STATE_MOTOR_CALIBRATION] else [])
     @ (if startup_encoder_index_search (config a) \<and> use_index (encoder_config (encoder a))
          then [AXIS_STATE_ENCODER_INDEX_SEARCH] else [])
     @ (if startup_encoder_offset_calibration (config a)
          then [AXIS_STATE_ENCODER_OFFSET_CALIBRATION] else [])
     @ (if startup_closed_loop_control (config a) then [AXIS_STATE_CLOSED_LOOP_CONTROL]
        else if startup_sensorless_control (config a) then [AXIS_STATE_SENSORLESS_CONTROL]
        else [])"

text \<open>The calls the scaffold itself makes in a tick, whatever the tick body is.\<close>

definition scaffold_events :: "event set" where
  "scaffold_events =
     {Ev_osSignalWait, Ev_Encoder_update, Ev_SensorlessEstimator_update,
      Ev_Motor_do_checks, Ev_Encoder_do_checks}"

subsection \<open>A concrete board\<close>

text \<open>
  One choice of everything that is a parameter above, and one axis state, on which
  the definitions can be run: error bits that are distinct single bits, an 8 kHz
  current measurement, sub-components that succeed and change nothing but the
  armed flag, and an outside world that requests closed-loop control once six
  calls have been made (in \<open>failing_arm_world\<close>: exactly when six calls have been
  made, and arming fails).
\<close>

definition bench_world :: world where
  "bench_world =
     \<lparr>ERROR_INVALID_STATE = 0x01,
      ERROR_DC_BUS_UNDER_VOLTAGE = 0x02,
      ERROR_DC_BUS_OVER_VOLTAGE = 0x04,
      ERROR_BRAKE_RESISTOR_DISARMED = 0x10,
      ERROR_MOTOR_DISARMED = 0x20,
      ERROR_CONTROLLER_FAILED = 0x200,
      ERROR_POS_CTRL_DURING_SENSORLESS = 0x400,
      ERROR_WATCHDOG_TIMER_EXPIRED = 0x800,
      CTRL_MODE_POSITION_CONTROL = 3,
      current_meas_hz = 8000,
      current_meas_period = 1 / 8000,
      num_gpios = 8,
      safety_critical_disarm_motor_pwm =
        (\<lambda>a. ((), a\<lparr>motor := (motor a)\<lparr>is_armed := False\<rparr>\<rparr>)),
      Motor_arm = (\<lambda>a. (True, a\<lparr>motor := (motor a)\<lparr>is_armed := True\<rparr>\<rparr>)),
      Motor_update = (\<lambda>I_mag phase_now vel_now a. (True, a)),
      Motor_do_checks = (\<lambda>a. ((), a)),
      Motor_pwm_test = (\<lambda>duty a. (True, a)),
      Motor_run_calibration = (\<lambda>a. (True, a)),
      Encoder_update = (\<lambda>a. ((), a)),
      Encoder_do_checks = (\<lambda>a. ((), a)),
      Encoder_run_index_search = (\<lambda>a. (True, a)),
      Encoder_run_direction_find = (\<lambda>a. (True, a)),
      Encoder_run_offset_calibration = (\<lambda>a. (True, a)),
      Encoder_set_idx_subscribe = (\<lambda>b a. ((), a)),
      SensorlessEstimator_update = (\<lambda>a. ((), a)),
      Controller_update = (\<lambda>pos_now vel_now a. ((True, 0), a)),
      osSignalWait =
        (\<lambda>a. (True, if 6 \<le> length (trace a)
                      then a\<lparr>requested_state := AXIS_STATE_CLOSED_LOOP_CONTROL\<rparr> else a)),
      gpio_read = (\<lambda>g a. True),
      other_axis = (\<lambda>a. a),
      brake_resistor_enabled = (\<lambda>a. False),
      brake_resistor_armed = (\<lambda>a. False),
      vbus_voltage = (\<lambda>a. 24),
      dc_bus_undervoltage_trip_level = (\<lambda>a. 8),
      dc_bus_overvoltage_trip_level = (\<lambda>a. 26)\<rparr>"

definition bench_lockin :: LockinConfig_t where
  "bench_lockin =
     \<lparr>current = 10, ramp_time = 1 / 2000, ramp_distance = 3 * pi, accel = 20, vel = 40,
      finish_distance = 100, finish_on_vel = False, finish_on_distance = False,
      finish_on_enc_idx = False\<rparr>"

definition bench_config :: Config_t where
  "bench_config =
     \<lparr>startup_motor_calibration = False,
      startup_encoder_index_search = False,
      startup_encoder_offset_calibration = False,
      startup_closed_loop_control = False,
      startup_sensorless_control = False,
      enable_step_dir = False,
      counts_per_step = 2,
      step_gpio_num = 1,
      dir_gpio_num = 2,
      watchdog_timeout = 0,
      lockin = bench_lockin\<rparr>"

definition bench_axis :: Axis where
  "bench_axis =
     \<lparr>motor = \<lparr>motor_config = \<lparr>phase_locked = False, direction = 1, pole_pairs = 7\<rparr>,
                is_armed = True, phase_setpoint = 0\<rparr>,
      encoder = \<lparr>encoder_config = \<lparr>cpr = 8192, use_index = False,
                                     idx_search_unidirectional = False\<rparr>,
                  index_found = False, is_ready = True, pos_estimate = 0,
                  vel_estimate = 0, phase = 0\<rparr>,
      sensorless_estimator = \<lparr>pll_pos = 0, sensorless_vel_estimate = 0, sensorless_phase = 0\<rparr>,
      controller = \<lparr>control_mode = 3, pos_setpoint = 0, vel_setpoint = 0,
                     current_setpoint = 0\<rparr>,
      config = bench_config,
      error = 0,
      requested_state = AXIS_STATE_UNDEFINED,
      task_chain = [AXIS_STATE_IDLE, AXIS_STATE_UNDEFINED, AXIS_STATE_UNDEFINED,
                    AXIS_STATE_UNDEFINED, AXIS_STATE_UNDEFINED, AXIS_STATE_UNDEFINED,
                    AXIS_STATE_UNDEFINED, AXIS_STATE_UNDEFINED, AXIS_STATE_UNDEFINED,
                    AXIS_STATE_UNDEFINED],
      lockin_state = LOCKIN_STATE_INACTIVE,
      step_dir_active = False,
      step_gpio = Some 1,
      dir_gpio = Some 2,
      watchdog_reset_value = 0,
      watchdog_current_value = 0,
      trace = []\<rparr>"

text \<open>Variations of the board and of the axis, for particular runs.\<close>

definition calibration_request :: Axis where
  "calibration_request = bench_axis\<lparr>requested_state := AXIS_STATE_FULL_CALIBRATION_SEQUENCE\<rparr>"

definition failing_calibration_world :: world where
  "failing_calibration_world = bench_world\<lparr>Motor_run_calibration := (\<lambda>a. (False, a))\<rparr>"

definition quiet_world :: world where
  "quiet_world = bench_world\<lparr>osSignalWait := (\<lambda>a. (True, a))\<rparr>"

definition failing_arm_world :: world where
  "failing_arm_world =
     bench_world
       \<lparr>Motor_arm := (\<lambda>a. (False, a)),
        osSignalWait :=
          (\<lambda>a. (True, if length (trace a) = 6
                        then a\<lparr>requested_state := AXIS_STATE_CLOSED_LOOP_CONTROL\<rparr> else a))\<rparr>"

text \<open>
  The axis once the idle loop of \<open>bench_axis\<close> has been left on a request for
  closed-loop control and \<^verbatim>\<open>motor_.arm()\<close> has failed.
\<close>

definition idle_exit_axis :: Axis where
  "idle_exit_axis =
     bench_axis\<lparr>motor := (motor bench_axis)\<lparr>is_armed := False\<rparr>,
       requested_state := AXIS_STATE_CLOSED_LOOP_CONTROL,
       trace := [Ev_safety_critical_disarm_motor_pwm,
                 Ev_osSignalWait, Ev_Encoder_update, Ev_SensorlessEstimator_update,
                 Ev_Motor_do_checks, Ev_Encoder_do_checks,
                 Ev_osSignalWait, Ev_Encoder_update, Ev_SensorlessEstimator_update,
                 Ev_Motor_do_checks, Ev_Encoder_do_checks,
                 Ev_Motor_arm]\<rparr>"

text \<open>An axis with step/dir active whose position setpoint is \<open>2 ^ 24\<close>, one count a step.\<close>

definition large_setpoint_axis :: Axis where
  "large_setpoint_axis =
     bench_axis\<lparr>step_dir_active := True,
       config := bench_config\<lparr>counts_per_step := 1\<rparr>,
       controller := (controller bench_axis)\<lparr>pos_setpoint := 16777216\<rparr>\<rparr>"

definition sibling_open_loop_world :: world where
  "sibling_open_loop_world =
     bench_world\<lparr>other_axis :=
       (\<lambda>a. a\<lparr>task_chain := [AXIS_STATE_OPEN_LOOP_CONTROL, AXIS_STATE_IDLE, AXIS_STATE_UNDEFINED],
              motor := (motor a)\<lparr>phase_setpoint := 1 / 2\<rparr>,
              controller := (controller a)\<lparr>vel_setpoint := 3\<rparr>\<rparr>)\<rparr>"

definition phase_locked_axis :: Axis where
  "phase_locked_axis =
     bench_axis\<lparr>motor := (motor bench_axis)
       \<lparr>motor_config := (motor_config (motor bench_axis))\<lparr>phase_locked := True\<rparr>\<rparr>\<rparr>"

definition short_ramp_lockin :: LockinConfig_t where
  "short_ramp_lockin = bench_lockin\<lparr>ramp_distance := 2\<rparr>"

definition finish_on_distance_axis :: Axis where
  "finish_on_distance_axis =
     bench_axis\<lparr>config := bench_config\<lparr>lockin := bench_lockin\<lparr>finish_on_distance := True\<rparr>\<rparr>\<rparr>"


section \<open>Properties\<close>

subsection \<open>Single-precision rounding\<close>

lemma round_half_even_of_int [simp]: "round_half_even (of_int m) = m"
  by (simp add: round_half_even_def)

lemma round_half_even_numeral [simp]: "round_half_even (numeral n) = numeral n"
  by (simp add: round_half_even_def)

lemma round_half_even_minus: "round_half_even (- r) = - round_half_even r"
proof (cases "r \<in> \<int>")
  case True
  then obtain m where "r = of_int m" by (auto elim: Ints_cases)
  then have "- r = of_int (- m)" by simp
  then show ?thesis using \<open>r = of_int m\<close> by (simp only: round_half_even_of_int)
next
  case False
  then have neq: "r \<noteq> of_int \<lfloor>r\<rfloor>"
    by (metis Ints_of_int)
  then have fl: "\<lfloor>- r\<rfloor> = - \<lfloor>r\<rfloor> - 1"
    by (simp add: floor_minus ceiling_altdef)
  show ?thesis
    unfolding round_half_even_def Let_def fl
    by (auto simp add: algebra_simps)
qed

lemma binary32_minus: "binary32 (- x) = - binary32 x"
  by (simp add: binary32_def Let_def round_half_even_minus)

lemma binary32_eval:
  assumes "x \<noteq> 0" "2 powr of_int e \<le> \<bar>x\<bar>" "\<bar>x\<bar> < 2 powr of_int (e + 1)" "- 126 \<le> e"
  shows "binary32 x
           = of_int (round_half_even (x / 2 powr (of_int e - 23))) * 2 powr (of_int e - 23)"
proof -
  have "\<lfloor>log 2 \<bar>x\<bar>\<rfloor> = e"
    using assms by (subst floor_log_eq_powr_iff) simp_all
  then show ?thesis using assms(1,4) by (simp add: binary32_def Let_def max_def)
qed

lemma binary32_values:
  "binary32 1 = 1"
  "binary32 2 = 2"
  "binary32 8000 = 8000"
  "binary32 536803 = 536803"
  "binary32 16777216 = 16777216"
  using binary32_eval[of 1 0] binary32_eval[of 2 1] binary32_eval[of 8000 12]
    binary32_eval[of 536803 19] binary32_eval[of 16777216 24]
  by (simp_all add: powr_neg_numeral)

text \<open>The float next to \<open>2 ^ 24 + 1\<close> is \<open>2 ^ 24\<close>: the tie goes to the even significand.\<close>

lemma binary32_16777217: "binary32 16777217 = 16777216"
  using binary32_eval[of 16777217 24] by (simp add: round_half_even_def)

subsection \<open>The watchdog\<close>

lemma unat_minus_one_pos: "(x::32 word) > 0 \<Longrightarrow> unat (x - 1) = unat x - 1"
  by (simp add: unat_minus_one word_greater_zero_iff)

lemma word_minus_one_le: "(x::32 word) > 0 \<Longrightarrow> x - 1 \<le> x"
  by (simp add: word_le_nat_alt unat_minus_one_pos)

lemma watchdog_check_inv:
  "watchdog_current_value a \<le> watchdog_reset_value a \<Longrightarrow>
   watchdog_current_value (snd (watchdog_check w a))
     \<le> watchdog_reset_value (snd (watchdog_check w a))"
  using word_minus_one_le[of "watchdog_current_value a"]
  by (auto simp add: watchdog_check_def)

lemma update_watchdog_settings_inv:
  "watchdog_current_value (update_watchdog_settings w a)
     \<le> watchdog_reset_value (update_watchdog_settings w a)"
  by (simp add: update_watchdog_settings_def watchdog_feed_def)

lemma watchdog_step_inv:
  "watchdog_current_value a \<le> watchdog_reset_value a \<Longrightarrow>
   watchdog_current_value (watchdog_step w a op) \<le> watchdog_reset_value (watchdog_step w a op)"
  by (cases op)
     (simp_all add: watchdog_check_inv update_watchdog_settings_inv, simp add: watchdog_feed_def)

lemma watchdog_run_inv:
  "watchdog_current_value a \<le> watchdog_reset_value a \<Longrightarrow>
   watchdog_current_value (watchdog_run w a ops) \<le> watchdog_reset_value (watchdog_run w a ops)"
  unfolding watchdog_run_def
  by (induction ops arbitrary: a) (simp_all add: watchdog_step_inv)

lemma watchdog_check_no_underflow:
  "unat (watchdog_current_value (snd (watchdog_check w a))) \<le> unat (watchdog_current_value a)"
  by (simp add: watchdog_check_def unat_minus_one_pos)

text \<open>
  Claim C5. \<^verbatim>\<open>watchdog_check\<close> returns true and changes nothing when the reset value
  is 0; otherwise, with a positive current value, it decrements it (without
  wrapping) and returns true; otherwise it sets \<^verbatim>\<open>ERROR_WATCHDOG_TIMER_EXPIRED\<close>,
  returns false and leaves the current value at 0. The current value never grows
  in a check, \<^verbatim>\<open>watchdog_feed\<close> sets it to the reset value, and
  \<open>current value \<le> reset value\<close> holds after \<^verbatim>\<open>update_watchdog_settings\<close> and is kept
  by every run of feeds, checks and updates of the settings.
\<close>

theorem watchdog_check_correct:
  "(watchdog_reset_value a = 0 \<longrightarrow> watchdog_check w a = (True, a)) \<and>
   (watchdog_reset_value a \<noteq> 0 \<and> 0 < watchdog_current_value a \<longrightarrow>
      watchdog_check w a
        = (True, a\<lparr>watchdog_current_value := watchdog_current_value a - 1\<rparr>) \<and>
      unat (watchdog_current_value a - 1) = unat (watchdog_current_value a) - 1) \<and>
   (watchdog_reset_value a \<noteq> 0 \<and> \<not> 0 < watchdog_current_value a \<longrightarrow>
      watchdog_check w a
        = (False, a\<lparr>error := error a OR ERROR_WATCHDOG_TIMER_EXPIRED w\<rparr>) \<and>
      watchdog_current_value (snd (watchdog_check w a)) = 0) \<and>
   unat (watchdog_current_value (snd (watchdog_check w a)))
     \<le> unat (watchdog_current_value a) \<and>
   watchdog_feed a = a\<lparr>watchdog_current_value := watchdog_reset_value a\<rparr> \<and>
   watchdog_current_value (update_watchdog_settings w a)
     \<le> watchdog_reset_value (update_watchdog_settings w a) \<and>
   (watchdog_current_value a \<le> watchdog_reset_value a \<longrightarrow>
      watchdog_current_value (watchdog_run w a ops)
        \<le> watchdog_reset_value (watchdog_run w a ops))"
proof -
  have zero: "\<not> 0 < watchdog_current_value a \<Longrightarrow> watchdog_current_value a = 0"
    by (simp add: word_greater_zero_iff)
  show ?thesis
    using watchdog_check_no_underflow[of w a] update_watchdog_settings_inv[of w a]
      watchdog_run_inv[of a w ops] unat_minus_one_pos[of "watchdog_current_value a"] zero
    by (simp add: watchdog_check_def watchdog_feed_def)
qed

theorem watchdog_check_correct_witness:
  "watchdog_check bench_world
      (bench_axis\<lparr>watchdog_reset_value := 10, watchdog_current_value := 3\<rparr>)
     = (True, bench_axis\<lparr>watchdog_reset_value := 10, watchdog_current_value := 2\<rparr>) \<and>
   watchdog_check bench_world
      (bench_axis\<lparr>watchdog_reset_value := 10, watchdog_current_value := 0\<rparr>)
     = (False, bench_axis\<lparr>watchdog_reset_value := 10, watchdog_current_value := 0,
                          error := 0x800\<rparr>) \<and>
   watchdog_check bench_world bench_axis = (True, bench_axis) \<and>
   watchdog_current_value
     (watchdog_run bench_world
        (bench_axis\<lparr>watchdog_reset_value := 10, watchdog_current_value := 3\<rparr>)
        [Op_check, Op_check, Op_check, Op_check, Op_feed, Op_check])
     \<le> 10"
  using watchdog_check_correct[of
           "bench_axis\<lparr>watchdog_reset_value := 10, watchdog_current_value := 3\<rparr>"
           bench_world "[Op_check, Op_check, Op_check, Op_check, Op_feed, Op_check]"]
        watchdog_check_correct[of
           "bench_axis\<lparr>watchdog_reset_value := 10, watchdog_current_value := 0\<rparr>"
           bench_world "[]"]
        watchdog_check_correct[of bench_axis bench_world "[]"]
  by (simp add: bench_axis_def bench_world_def watchdog_run_def watchdog_check_def
        watchdog_feed_def)

subsection \<open>Loading the task chain\<close>

lemma push_task_simp [simp]: "push_task s (tc, pos) = (tc[pos := s], Suc pos)"
  by (simp add: push_task_def)

lemma six_list:
  assumes "6 \<le> length (xs::'a list)"
  obtains x0 x1 x2 x3 x4 x5 ys where "xs = x0 # x1 # x2 # x3 # x4 # x5 # ys"
proof -
  from assms obtain x0 r0 where "xs = x0 # r0" "5 \<le> length r0" by (cases xs) auto
  moreover then obtain x1 r1 where "r0 = x1 # r1" "4 \<le> length r1" by (cases r0) auto
  moreover then obtain x2 r2 where "r1 = x2 # r2" "3 \<le> length r2" by (cases r1) auto
  moreover then obtain x3 r3 where "r2 = x3 # r3" "2 \<le> length r3" by (cases r2) auto
  moreover then obtain x4 r4 where "r3 = x4 # r4" "1 \<le> length r4" by (cases r3) auto
  moreover then obtain x5 r5 where "r4 = x5 # r5" by (cases r4) auto
  ultimately show ?thesis using that by blast
qed

lemma load_task_chain_no_fault:
  assumes "6 \<le> length (task_chain a)"
  shows "\<exists>a'. load_task_chain w a = Inr a'"
  using assms by (simp add: load_task_chain_def Let_def)

lemma load_task_chain_fields:
  assumes "load_task_chain w a = Inr a'" "requested_state a \<noteq> AXIS_STATE_UNDEFINED"
  shows "requested_state a' = AXIS_STATE_UNDEFINED \<and>
         error a' = error a AND NOT (ERROR_INVALID_STATE w) \<and>
         trace a' = trace a"
  using assms by (auto simp add: load_task_chain_def Let_def split: if_splits)

lemma load_task_chain_idle:
  "requested_state a = AXIS_STATE_UNDEFINED \<Longrightarrow> load_task_chain w a = Inr a"
  by (simp add: load_task_chain_def)

text \<open>
  Claim C7. When a request is pending at the top of the loop (and the task chain has
  room for the longest expansion, six entries), loading the task chain succeeds,
  resets \<^verbatim>\<open>requested_state_\<close> to \<^verbatim>\<open>AXIS_STATE_UNDEFINED\<close> and replaces \<^verbatim>\<open>error_\<close> by
  \<^verbatim>\<open>error_ & ~ERROR_INVALID_STATE\<close>: every bit of \<^verbatim>\<open>ERROR_INVALID_STATE\<close> is cleared
  and every other bit keeps its value.
\<close>

theorem load_task_chain_clears_request:
  assumes "requested_state a \<noteq> AXIS_STATE_UNDEFINED" "6 \<le> length (task_chain a)"
  shows "\<exists>a'. load_task_chain w a = Inr a' \<and>
           requested_state a' = AXIS_STATE_UNDEFINED \<and>
           error a' = error a AND NOT (ERROR_INVALID_STATE w) \<and>
           (\<forall>n. bit (ERROR_INVALID_STATE w) n \<longrightarrow> \<not> bit (error a') n) \<and>
           (\<forall>n. \<not> bit (ERROR_INVALID_STATE w) n \<longrightarrow> bit (error a') n = bit (error a) n)"
proof -
  from load_task_chain_no_fault[OF assms(2), of w] obtain a' where
    l: "load_task_chain w a = Inr a'" by blast
  from load_task_chain_fields[OF l assms(1)] have
    f: "requested_state a' = AXIS_STATE_UNDEFINED"
       "error a' = error a AND NOT (ERROR_INVALID_STATE w)" by simp_all
  have "\<forall>n. bit (ERROR_INVALID_STATE w) n \<longrightarrow> \<not> bit (error a') n"
    by (simp add: f(2) bit_and_iff bit_not_iff)
  moreover have "\<forall>n. \<not> bit (ERROR_INVALID_STATE w) n \<longrightarrow> bit (error a') n = bit (error a) n"
    by (auto simp add: f(2) bit_and_iff bit_not_iff dest: bit_imp_le_length)
  ultimately show ?thesis using l f by blast
qed

theorem load_task_chain_clears_request_witness:
  "load_task_chain bench_world
     (bench_axis\<lparr>requested_state := AXIS_STATE_OPEN_LOOP_CONTROL, error := 0x21\<rparr>)
   = Inr (bench_axis\<lparr>requested_state := AXIS_STATE_UNDEFINED, error := 0x20,
            task_chain := [AXIS_STATE_OPEN_LOOP_CONTROL, AXIS_STATE_IDLE, AXIS_STATE_UNDEFINED,
                    AXIS_STATE_UNDEFINED, AXIS_STATE_UNDEFINED, AXIS_STATE_UNDEFINED,
                    AXIS_STATE_UNDEFINED, AXIS_STATE_UNDEFINED, AXIS_STATE_UNDEFINED,
                    AXIS_STATE_UNDEFINED]\<rparr>)"
  using load_task_chain_clears_request[of
          "bench_axis\<lparr>requested_state := AXIS_STATE_OPEN_LOOP_CONTROL, error := 0x21\<rparr>"
          bench_world]
  by (simp add: load_task_chain_def bench_axis_def bench_world_def)

text \<open>
  Claim C8. A request of \<^verbatim>\<open>AXIS_STATE_STARTUP_SEQUENCE\<close> writes, from position 0 on,
  exactly the tasks the spec lists, then \<^verbatim>\<open>AXIS_STATE_IDLE\<close> and a terminating
  \<^verbatim>\<open>AXIS_STATE_UNDEFINED\<close>, and leaves the later slots as they were; with all
  \<^verbatim>\<open>startup_*\<close> flags false the chain starts with idle, undefined.
\<close>

theorem load_task_chain_startup:
  assumes "requested_state a = AXIS_STATE_STARTUP_SEQUENCE" "6 \<le> length (task_chain a)"
  shows "\<exists>a'. load_task_chain w a = Inr a' \<and>
           task_chain a' = startup_sequence_tasks a @ [AXIS_STATE_IDLE, AXIS_STATE_UNDEFINED]
                             @ drop (length (startup_sequence_tasks a) + 2) (task_chain a) \<and>
           pending_tasks a' = startup_sequence_tasks a @ [AXIS_STATE_IDLE] \<and>
           (\<not> startup_motor_calibration (config a) \<and>
            \<not> startup_encoder_index_search (config a) \<and>
            \<not> startup_encoder_offset_calibration (config a) \<and>
            \<not> startup_closed_loop_control (config a) \<and>
            \<not> startup_sensorless_control (config a) \<longrightarrow>
              take 2 (task_chain a') = [AXIS_STATE_IDLE, AXIS_STATE_UNDEFINED])"
proof -
  from assms(2) obtain x0 x1 x2 x3 x4 x5 ys where
    tc: "task_chain a = x0 # x1 # x2 # x3 # x4 # x5 # ys"
    by (rule six_list)
  show ?thesis
    by (simp add: load_task_chain_def assms(1) tc startup_sequence_tasks_def Let_def
          pending_tasks_def)
qed

theorem load_task_chain_startup_witness:
  "load_task_chain bench_world (bench_axis\<lparr>requested_state := AXIS_STATE_STARTUP_SEQUENCE\<rparr>)
     = Inr bench_axis \<and>
   load_task_chain bench_world
     (bench_axis\<lparr>requested_state := AXIS_STATE_STARTUP_SEQUENCE,
        config := bench_config\<lparr>startup_motor_calibration := True,
                    startup_encoder_index_search := True,
                    startup_encoder_offset_calibration := True,
                    startup_closed_loop_control := True,
                    startup_sensorless_control := True\<rparr>\<rparr>)
     = Inr (bench_axis\<lparr>
        config := bench_config\<lparr>startup_motor_calibration := True,
                    startup_encoder_index_search := True,
                    startup_encoder_offset_calibration := True,
                    startup_closed_loop_control := True,
                    startup_sensorless_control := True\<rparr>,
        task_chain := [AXIS_STATE_MOTOR_CALIBRATION, AXIS_STATE_ENCODER_OFFSET_CALIBRATION,
                    AXIS_STATE_CLOSED_LOOP_CONTROL, AXIS_STATE_IDLE, AXIS_STATE_UNDEFINED,
                    AXIS_STATE_UNDEFINED, AXIS_STATE_UNDEFINED, AXIS_STATE_UNDEFINED,
                    AXIS_STATE_UNDEFINED, AXIS_STATE_UNDEFINED]\<rparr>)"
  using load_task_chain_startup[of
          "bench_axis\<lparr>requested_state := AXIS_STATE_STARTUP_SEQUENCE\<rparr>" bench_world]
        load_task_chain_startup[of
          "bench_axis\<lparr>requested_state := AXIS_STATE_STARTUP_SEQUENCE,
        config := bench_config\<lparr>startup_motor_calibration := True,
                    startup_encoder_index_search := True,
                    startup_encoder_offset_calibration := True,
                    startup_closed_loop_control := True,
                    startup_sensorless_control := True\<rparr>\<rparr>" bench_world]
  by (simp add: load_task_chain_def bench_axis_def bench_world_def bench_config_def
        startup_sequence_tasks_def pending_tasks_def)

lemma memmove_task_chain_nth:
  "i + 1 < length tc \<Longrightarrow> memmove_task_chain tc ! i = tc ! (i + 1)"
  by (cases tc) (simp_all add: memmove_task_chain_def nth_append)

lemma memmove_task_chain_length: "length (memmove_task_chain tc) = length tc"
  by (cases tc) (simp_all add: memmove_task_chain_def)

lemma memmove_task_chain_last: "last (memmove_task_chain tc) = last tc"
  by (cases tc) (simp_all add: memmove_task_chain_def)

subsection \<open>Only the state machine writes the task chain\<close>

lemma ext_call_result:
  "ext_call ev f a = (r, a') \<Longrightarrow> task_chain a' = task_chain a \<and> trace a' = trace a @ [ev]"
  by (auto simp add: ext_call_def split: prod.splits)

lemma ext_call_task_chain [simp]: "task_chain (snd (ext_call ev f a)) = task_chain a"
  by (simp add: ext_call_def split: prod.splits)

lemma ext_call_trace [simp]: "trace (snd (ext_call ev f a)) = trace a @ [ev]"
  by (simp add: ext_call_def split: prod.splits)

lemma set_error_task_chain [simp]: "task_chain (set_error e a) = task_chain a"
  by (simp add: set_error_def)

lemma set_error_trace [simp]: "trace (set_error e a) = trace a"
  by (simp add: set_error_def)

lemma log_event_task_chain [simp]: "task_chain (log_event e a) = task_chain a"
  by (simp add: log_event_def)

lemma log_event_trace [simp]: "trace (log_event e a) = trace a @ [e]"
  by (simp add: log_event_def)

lemma set_lockin_state_task_chain [simp]: "task_chain (set_lockin_state s a) = task_chain a"
  by (simp add: set_lockin_state_def)

lemma set_lockin_state_trace [simp]:
  "trace (set_lockin_state s a) = trace a @ [Ev_lockin_state s]"
  by (simp add: set_lockin_state_def)

lemma gpio_deinit_if_task_chain [simp]: "task_chain (gpio_deinit_if g a) = task_chain a"
  by (simp add: gpio_deinit_if_def split: option.splits)

lemma set_step_dir_active_task_chain [simp]:
  "task_chain (set_step_dir_active b a) = task_chain a"
  by (simp add: set_step_dir_active_def Let_def split: option.splits)

lemma wait_task_chain [simp]: "task_chain (snd (wait_for_current_meas w a)) = task_chain a"
  by (simp add: wait_for_current_meas_def)

lemma do_updates_task_chain [simp]: "task_chain (snd (do_updates w a)) = task_chain a"
  by (simp add: do_updates_def Let_def)

lemma do_checks_task_chain [simp]: "task_chain (snd (do_checks w a)) = task_chain a"
  by (simp add: do_checks_def Let_def)

lemma watchdog_check_task_chain [simp]: "task_chain (snd (watchdog_check w a)) = task_chain a"
  by (simp add: watchdog_check_def)

lemma run_control_loop_task_chain:
  assumes body: "\<And>l a. task_chain (snd (snd (body l a))) = task_chain a"
  shows "task_chain (outcome_axis (run_control_loop w body n l a)) = task_chain a"
proof (induction n arbitrary: l a)
  case 0
  then show ?case by simp
next
  case (Suc n)
  obtain s a1 where w1: "wait_for_current_meas w a = (s, a1)" by force
  obtain u a2 where u1: "do_updates w a1 = (u, a2)" by force
  obtain c l' a3 where b1: "body l a2 = (c, l', a3)" by (metis prod_cases3)
  obtain k a4 where c1: "do_checks w a3 = (k, a4)" by force
  obtain g a5 where g1: "watchdog_check w a4 = (g, a5)" by force
  have t1: "task_chain a1 = task_chain a" using wait_task_chain[of w a] w1 by simp
  have t2: "task_chain a2 = task_chain a1" using do_updates_task_chain[of w a1] u1 by simp
  have t3: "task_chain a3 = task_chain a2" using body[of l a2] b1 by simp
  have t4: "task_chain a4 = task_chain a3" using do_checks_task_chain[of w a3] c1 by simp
  have t5: "task_chain a5 = task_chain a4" using watchdog_check_task_chain[of w a4] g1 by simp
  show ?case
    using Suc.IH[of l' a5] by (simp add: w1 u1 b1 c1 g1 t1 t2 t3 t4 t5)
qed

lemma no_locals_task_chain:
  assumes "\<And>a. task_chain (snd (body a)) = task_chain a"
  shows "task_chain (snd (snd (no_locals body l a))) = task_chain a"
  using assms[of a] by (simp add: no_locals_def split_def)

lemma ramp_tick_task_chain: "task_chain (snd (snd (ramp_tick w x a))) = task_chain a"
  by (simp add: ramp_tick_def Let_def split_def)

lemma accelerate_tick_task_chain:
  "task_chain (snd (snd (accelerate_tick w l a))) = task_chain a"
  by (simp add: accelerate_tick_def Let_def split_def)

lemma const_vel_tick_task_chain:
  "task_chain (snd (snd (const_vel_tick w l a))) = task_chain a"
  by (simp add: const_vel_tick_def Let_def split_def)

lemma sensorless_tick_task_chain: "task_chain (snd (sensorless_tick w a)) = task_chain a"
  by (simp add: sensorless_tick_def Let_def split_def)

lemma closed_loop_tick_task_chain: "task_chain (snd (closed_loop_tick w a)) = task_chain a"
  by (simp add: closed_loop_tick_def Let_def split_def)

lemma open_loop_tick_task_chain: "task_chain (snd (open_loop_tick w a)) = task_chain a"
  by (simp add: open_loop_tick_def Let_def split_def split: option.splits)

lemma idle_tick_task_chain: "task_chain (snd (idle_tick a)) = task_chain a"
  by (simp add: idle_tick_def)

lemma return_check_for_errors_axis [simp]:
  "outcome_axis (return_check_for_errors r) = outcome_axis r"
  by (cases r) (simp_all add: return_check_for_errors_def)

lemma returned_axis [simp]: "outcome_axis (returned p) = snd p"
  by (cases p) (simp add: returned_def)

lemma run_control_loop_task_chain_cases:
  assumes body: "\<And>l a. task_chain (snd (snd (body l a))) = task_chain a"
  shows "run_control_loop w body n l a = Returned l' a' \<Longrightarrow> task_chain a' = task_chain a"
    and "run_control_loop w body n l a = Out_of_fuel a' \<Longrightarrow> task_chain a' = task_chain a"
  using run_control_loop_task_chain[of body w n l a, OF body] by simp_all

lemma idx_subscribe_if_not_found_task_chain [simp]:
  "task_chain (idx_subscribe_if_not_found w a) = task_chain a"
  by (simp add: idx_subscribe_if_not_found_def)

lemma lockin_spin_const_vel_task_chain:
  "task_chain (outcome_axis (lockin_spin_const_vel w fuel l a)) = task_chain a"
  unfolding lockin_spin_const_vel_def Let_def
  by (auto split: outcome.splits
      dest!: run_control_loop_task_chain_cases[of "const_vel_tick w", OF const_vel_tick_task_chain])

lemma run_lockin_spin_task_chain:
  "task_chain (outcome_axis (run_lockin_spin w fuel a)) = task_chain a"
  unfolding run_lockin_spin_def Let_def
  by (auto split: outcome.splits simp add: lockin_spin_const_vel_task_chain
      dest!: run_control_loop_task_chain_cases[of "ramp_tick w", OF ramp_tick_task_chain]
             run_control_loop_task_chain_cases[of "accelerate_tick w", OF accelerate_tick_task_chain])

lemma run_sensorless_control_loop_task_chain:
  "task_chain (outcome_axis (run_sensorless_control_loop w fuel a)) = task_chain a"
  by (simp add: run_sensorless_control_loop_def run_control_loop_task_chain
        no_locals_task_chain sensorless_tick_task_chain)

lemma run_closed_loop_control_loop_task_chain:
  "task_chain (outcome_axis (run_closed_loop_control_loop w fuel a)) = task_chain a"
  unfolding run_closed_loop_control_loop_def Let_def
  by (auto split: outcome.splits
      dest!: run_control_loop_task_chain_cases[of "no_locals (closed_loop_tick w)",
               OF no_locals_task_chain, OF closed_loop_tick_task_chain])

lemma run_open_loop_control_loop_task_chain:
  "task_chain (outcome_axis (run_open_loop_control_loop w fuel a)) = task_chain a"
  unfolding run_open_loop_control_loop_def Let_def
  by (auto split: outcome.splits
      dest!: run_control_loop_task_chain_cases[of "no_locals (open_loop_tick w)",
               OF no_locals_task_chain, OF open_loop_tick_task_chain])

lemma idle_while_task_chain:
  "task_chain (outcome_axis (idle_while w fuel n a)) = task_chain a"
proof (induction n arbitrary: a)
  case 0
  then show ?case by simp
next
  case (Suc n)
  show ?case
    using Suc.IH
    by (auto split: outcome.splits
        dest!: run_control_loop_task_chain_cases[of "no_locals idle_tick",
                 OF no_locals_task_chain, OF idle_tick_task_chain])
qed

lemma run_idle_loop_task_chain:
  "task_chain (outcome_axis (run_idle_loop w fuel a)) = task_chain a"
  by (simp add: run_idle_loop_def idle_while_task_chain)

lemma outcome_axis_cases:
  "r = Returned x a' \<Longrightarrow> outcome_axis r = a'"
  "r = Out_of_fuel a' \<Longrightarrow> outcome_axis r = a'"
  by simp_all

lemma dispatch_task_chain:
  "task_chain (outcome_axis (dispatch w fuel a)) = task_chain a"
proof (cases "current_state a")
  case AXIS_STATE_SENSORLESS_CONTROL
  show ?thesis
  proof (cases "run_lockin_spin w fuel a")
    case (Returned status a1)
    have t1: "task_chain a1 = task_chain a"
      using run_lockin_spin_task_chain[of w fuel a] Returned by simp
    show ?thesis
      using run_sensorless_control_loop_task_chain[of w fuel
              "a1\<lparr>controller := (controller a1)\<lparr>vel_setpoint := vel (lockin (config a1))\<rparr>\<rparr>"]
      by (simp add: dispatch_def AXIS_STATE_SENSORLESS_CONTROL Returned t1
            invalid_state_label_def)
  next
    case (Out_of_fuel a1)
    have t1: "task_chain a1 = task_chain a"
      using run_lockin_spin_task_chain[of w fuel a] Out_of_fuel by simp
    show ?thesis
      by (simp add: dispatch_def AXIS_STATE_SENSORLESS_CONTROL Out_of_fuel t1
            invalid_state_label_def)
  qed
next
  case AXIS_STATE_IDLE
  show ?thesis
  proof (cases "run_idle_loop w fuel a")
    case (Returned status a1)
    have t1: "task_chain a1 = task_chain a"
      using run_idle_loop_task_chain[of w fuel a] Returned by simp
    show ?thesis by (simp add: dispatch_def AXIS_STATE_IDLE Returned t1)
  next
    case (Out_of_fuel a1)
    have t1: "task_chain a1 = task_chain a"
      using run_idle_loop_task_chain[of w fuel a] Out_of_fuel by simp
    show ?thesis by (simp add: dispatch_def AXIS_STATE_IDLE Out_of_fuel t1)
  qed
qed (simp_all add: dispatch_def invalid_state_label_def run_lockin_spin_task_chain
       run_closed_loop_control_loop_task_chain run_open_loop_control_loop_task_chain)

subsection \<open>Advancing the task chain\<close>

text \<open>
  Claim C2, as the code has it. After an iteration whose task returned: on success
  every slot but the last holds what its right neighbour held when the task was
  dispatched (so the next task is the current state) and the last slot keeps its
  value; on failure position 0 holds \<^verbatim>\<open>AXIS_STATE_IDLE\<close> and every other slot is
  left as it was: the rest of the chain stays in the array.
\<close>

theorem state_machine_iteration_advance:
  assumes "state_machine_iteration w fuel a = Inr (Returned status a')"
  shows "\<exists>a1. load_task_chain w a = Inr a1 \<and>
           length (task_chain a') = length (task_chain a1) \<and>
           (status \<longrightarrow>
              (\<forall>i. i + 1 < length (task_chain a1) \<longrightarrow>
                     task_chain a' ! i = task_chain a1 ! (i + 1)) \<and>
              last (task_chain a') = last (task_chain a1) \<and>
              (1 < length (task_chain a1) \<longrightarrow> current_state a' = task_chain a1 ! 1)) \<and>
           (\<not> status \<longrightarrow> task_chain a' = (task_chain a1)[0 := AXIS_STATE_IDLE])"
proof (cases "load_task_chain w a")
  case (Inl f)
  with assms show ?thesis by (simp add: state_machine_iteration_def)
next
  case (Inr a1)
  show ?thesis
  proof (cases "dispatch w fuel a1")
    case (Out_of_fuel a2)
    with assms Inr show ?thesis by (simp add: state_machine_iteration_def)
  next
    case (Returned st a2)
    have tc: "task_chain a2 = task_chain a1"
      using dispatch_task_chain[of w fuel a1] Returned by simp
    from assms Inr Returned have st: "st = status" and a': "a' = advance_task_chain status a2"
      by (auto simp add: state_machine_iteration_def)
    show ?thesis
      using memmove_task_chain_nth[of _ "task_chain a1"] memmove_task_chain_nth[of 0 "task_chain a1"]
      by (simp add: Inr a' advance_task_chain_def tc memmove_task_chain_length
            memmove_task_chain_last set_current_state_def current_state_def)
  qed
qed

lemma calibration_iteration_ok:
  "state_machine_iteration bench_world 0 calibration_request
     = Inr (Returned True
         (bench_axis\<lparr>task_chain :=
             [AXIS_STATE_ENCODER_OFFSET_CALIBRATION, AXIS_STATE_IDLE, AXIS_STATE_UNDEFINED,
              AXIS_STATE_UNDEFINED, AXIS_STATE_UNDEFINED, AXIS_STATE_UNDEFINED,
              AXIS_STATE_UNDEFINED, AXIS_STATE_UNDEFINED, AXIS_STATE_UNDEFINED,
              AXIS_STATE_UNDEFINED],
            trace := [Ev_Motor_run_calibration]\<rparr>))"
  by (simp add: state_machine_iteration_def load_task_chain_def dispatch_def current_state_def
        ext_call_def returned_def advance_task_chain_def memmove_task_chain_def
        calibration_request_def bench_axis_def bench_world_def)

theorem state_machine_iteration_advance_witness:
  "state_machine_iteration bench_world 0 calibration_request
     = Inr (Returned True
         (bench_axis\<lparr>task_chain :=
             [AXIS_STATE_ENCODER_OFFSET_CALIBRATION, AXIS_STATE_IDLE, AXIS_STATE_UNDEFINED,
              AXIS_STATE_UNDEFINED, AXIS_STATE_UNDEFINED, AXIS_STATE_UNDEFINED,
              AXIS_STATE_UNDEFINED, AXIS_STATE_UNDEFINED, AXIS_STATE_UNDEFINED,
              AXIS_STATE_UNDEFINED],
            trace := [Ev_Motor_run_calibration]\<rparr>)) \<and>
   (\<exists>a1. load_task_chain bench_world calibration_request = Inr a1 \<and>
      task_chain a1 ! 1 = AXIS_STATE_ENCODER_OFFSET_CALIBRATION)"
  using state_machine_iteration_advance[OF calibration_iteration_ok] calibration_iteration_ok
  by (auto simp add: current_state_def bench_axis_def)

text \<open>
  A full calibration whose motor calibration fails: the chain loaded is motor
  calibration, offset calibration, idle; after the failure it reads idle, offset
  calibration, idle, not idle alone.
\<close>

theorem failed_task_keeps_rest_of_chain:
  "state_machine_iteration failing_calibration_world 0 calibration_request
     = Inr (Returned False
         (bench_axis\<lparr>task_chain :=
             [AXIS_STATE_IDLE, AXIS_STATE_ENCODER_OFFSET_CALIBRATION, AXIS_STATE_IDLE,
              AXIS_STATE_UNDEFINED, AXIS_STATE_UNDEFINED, AXIS_STATE_UNDEFINED,
              AXIS_STATE_UNDEFINED, AXIS_STATE_UNDEFINED, AXIS_STATE_UNDEFINED,
              AXIS_STATE_UNDEFINED],
            trace := [Ev_Motor_run_calibration]\<rparr>)) \<and>
   pending_tasks
         (bench_axis\<lparr>task_chain :=
             [AXIS_STATE_IDLE, AXIS_STATE_ENCODER_OFFSET_CALIBRATION, AXIS_STATE_IDLE,
              AXIS_STATE_UNDEFINED, AXIS_STATE_UNDEFINED, AXIS_STATE_UNDEFINED,
              AXIS_STATE_UNDEFINED, AXIS_STATE_UNDEFINED, AXIS_STATE_UNDEFINED,
              AXIS_STATE_UNDEFINED],
            trace := [Ev_Motor_run_calibration]\<rparr>)
     = [AXIS_STATE_IDLE, AXIS_STATE_ENCODER_OFFSET_CALIBRATION, AXIS_STATE_IDLE] \<and>
   [AXIS_STATE_IDLE, AXIS_STATE_ENCODER_OFFSET_CALIBRATION, AXIS_STATE_IDLE]
     \<noteq> [AXIS_STATE_IDLE]"
  by (simp add: state_machine_iteration_def load_task_chain_def dispatch_def current_state_def
        ext_call_def returned_def advance_task_chain_def set_current_state_def
        calibration_request_def failing_calibration_world_def bench_axis_def bench_world_def
        pending_tasks_def)

subsection \<open>The history of calls\<close>

lemma wait_trace [simp]:
  "trace (snd (wait_for_current_meas w a)) = trace a @ [Ev_osSignalWait]"
  by (simp add: wait_for_current_meas_def)

lemma do_updates_trace [simp]:
  "trace (snd (do_updates w a)) = trace a @ [Ev_Encoder_update, Ev_SensorlessEstimator_update]"
  by (simp add: do_updates_def Let_def)

lemma do_checks_trace [simp]:
  "trace (snd (do_checks w a)) = trace a @ [Ev_Motor_do_checks, Ev_Encoder_do_checks]"
  by (simp add: do_checks_def Let_def)

lemma watchdog_check_trace [simp]: "trace (snd (watchdog_check w a)) = trace a"
  by (simp add: watchdog_check_def)

lemma run_control_loop_trace:
  assumes body: "\<And>l a. \<exists>evs. trace (snd (snd (body l a))) = trace a @ evs \<and> set evs \<subseteq> S"
    and scaffold: "scaffold_events \<subseteq> S"
  shows "\<exists>evs. trace (outcome_axis (run_control_loop w body n l a)) = trace a @ evs
               \<and> set evs \<subseteq> S"
proof (induction n arbitrary: l a)
  case 0
  then show ?case by simp
next
  case (Suc n)
  obtain s a1 where w1: "wait_for_current_meas w a = (s, a1)" by force
  obtain u a2 where u1: "do_updates w a1 = (u, a2)" by force
  obtain c l' a3 where b1: "body l a2 = (c, l', a3)" by (metis prod_cases3)
  obtain k a4 where c1: "do_checks w a3 = (k, a4)" by force
  obtain g a5 where g1: "watchdog_check w a4 = (g, a5)" by force
  have t1: "trace a1 = trace a @ [Ev_osSignalWait]" using wait_trace[of w a] w1 by simp
  have t2: "trace a2 = trace a1 @ [Ev_Encoder_update, Ev_SensorlessEstimator_update]"
    using do_updates_trace[of w a1] u1 by simp
  obtain evb where t3: "trace a3 = trace a2 @ evb" and sb: "set evb \<subseteq> S"
    using body[of l a2] b1 by auto
  have t4: "trace a4 = trace a3 @ [Ev_Motor_do_checks, Ev_Encoder_do_checks]"
    using do_checks_trace[of w a3] c1 by simp
  have t5: "trace a5 = trace a4" using watchdog_check_trace[of w a4] g1 by simp
  obtain evr where
    tr: "trace (outcome_axis (run_control_loop w body n l' a5)) = trace a5 @ evr"
    and sr: "set evr \<subseteq> S"
    using Suc.IH[of l' a5] by blast
  have in_S: "Ev_osSignalWait \<in> S" "Ev_Encoder_update \<in> S" "Ev_SensorlessEstimator_update \<in> S"
    "Ev_Motor_do_checks \<in> S" "Ev_Encoder_do_checks \<in> S"
    using scaffold by (auto simp add: scaffold_events_def)
  show ?case
    using sb sr in_S by (simp add: w1 u1 b1 c1 g1 t1 t2 t3 t4 t5 tr)
qed

lemma idle_body_trace:
  "\<exists>evs. trace (snd (snd (no_locals idle_tick l a))) = trace a @ evs
         \<and> set evs \<subseteq> scaffold_events"
  by (simp add: no_locals_def idle_tick_def)

lemma idle_scaffold_trace:
  "\<exists>evs. trace (outcome_axis (run_control_loop w (no_locals idle_tick) n l a)) = trace a @ evs
         \<and> set evs \<subseteq> scaffold_events"
  by (rule run_control_loop_trace) (simp_all add: idle_body_trace)

lemma idle_while_trace:
  "\<exists>evs. trace (outcome_axis (idle_while w fuel n a)) = trace a @ evs
         \<and> set evs \<subseteq> scaffold_events"
proof (induction n arbitrary: a)
  case 0
  then show ?case by simp
next
  case (Suc n)
  obtain ev1 where
    e1: "trace (outcome_axis (run_control_loop w (no_locals idle_tick) fuel () a)) = trace a @ ev1"
    and s1: "set ev1 \<subseteq> scaffold_events"
    using idle_scaffold_trace[of w fuel "()" a] by blast
  show ?case
  proof (cases "run_control_loop w (no_locals idle_tick) fuel () a")
    case (Out_of_fuel a')
    then show ?thesis using e1 s1 by simp
  next
    case (Returned u a')
    obtain ev2 where e2: "trace (outcome_axis (idle_while w fuel n a')) = trace a' @ ev2"
      and s2: "set ev2 \<subseteq> scaffold_events"
      using Suc.IH[of a'] by blast
    show ?thesis using e1 s1 e2 s2 Returned by simp
  qed
qed

lemma run_idle_loop_trace:
  "\<exists>evs. trace (outcome_axis (run_idle_loop w fuel a))
           = trace a @ Ev_safety_critical_disarm_motor_pwm # evs
         \<and> set evs \<subseteq> scaffold_events"
  using idle_while_trace[of w fuel fuel
          "snd (ext_call Ev_safety_critical_disarm_motor_pwm
                  (safety_critical_disarm_motor_pwm w) a)"]
  by (simp add: run_idle_loop_def)

lemma dispatch_idle:
  "current_state a = AXIS_STATE_IDLE \<Longrightarrow>
   dispatch w fuel a =
     (case run_idle_loop w fuel a of
        Out_of_fuel a1 \<Rightarrow> Out_of_fuel a1
      | Returned idle_status a1 \<Rightarrow> returned (ext_call Ev_Motor_arm (Motor_arm w) a1))"
  by (simp add: dispatch_def)

lemma ext_call_fst: "fst (ext_call ev f a) = fst (f a)"
  by (simp add: ext_call_def split_def)

lemma idle_while_returns_with_request:
  "idle_while w fuel n a = Returned u a' \<Longrightarrow> requested_state a' \<noteq> AXIS_STATE_UNDEFINED"
proof (induction n arbitrary: a)
  case 0
  then show ?case by simp
next
  case (Suc n)
  then show ?case
    by (cases "run_control_loop w (no_locals idle_tick) fuel () a")
       (auto split: if_splits)
qed

lemma run_idle_loop_returns_with_request:
  "run_idle_loop w fuel a = Returned r a' \<Longrightarrow> requested_state a' \<noteq> AXIS_STATE_UNDEFINED"
  by (auto simp add: run_idle_loop_def return_check_for_errors_def split: outcome.splits
      dest: idle_while_returns_with_request)

text \<open>
  What an iteration that dispatches \<^verbatim>\<open>AXIS_STATE_IDLE\<close> calls. The first call is
  \<^verbatim>\<open>safety_critical_disarm_motor_pwm\<close>; whatever follows while the axis idles, also
  when it idles for ever, is calls of the scaffold. The idle loop returns only with
  a request pending; the next and last call is then \<^verbatim>\<open>motor_.arm()\<close>, whose result
  is the status of the task, and on failure the head of the task chain is (still)
  \<^verbatim>\<open>AXIS_STATE_IDLE\<close>.
\<close>

lemma idle_dispatch_calls:
  assumes "load_task_chain w a = Inr a1" "current_state a1 = AXIS_STATE_IDLE"
    "task_chain a1 \<noteq> []"
  shows "\<exists>evs. set evs \<subseteq> scaffold_events \<and>
           (case state_machine_iteration w fuel a of
              Inl f \<Rightarrow> False
            | Inr (Out_of_fuel a') \<Rightarrow>
                trace a' = trace a1 @ Ev_safety_critical_disarm_motor_pwm # evs
            | Inr (Returned status a') \<Rightarrow>
                trace a' = trace a1 @ Ev_safety_critical_disarm_motor_pwm # evs @ [Ev_Motor_arm] \<and>
                (\<exists>r a2. run_idle_loop w fuel a1 = Returned r a2 \<and>
                        requested_state a2 \<noteq> AXIS_STATE_UNDEFINED \<and>
                        status = fst (Motor_arm w a2)) \<and>
                (\<not> status \<longrightarrow> current_state a' = AXIS_STATE_IDLE))"
proof -
  obtain evs where
    e: "trace (outcome_axis (run_idle_loop w fuel a1))
          = trace a1 @ Ev_safety_critical_disarm_motor_pwm # evs"
    and s: "set evs \<subseteq> scaffold_events"
    using run_idle_loop_trace[of w fuel a1] by blast
  show ?thesis
  proof (cases "run_idle_loop w fuel a1")
    case (Out_of_fuel a2)
    then show ?thesis
      using e s by (auto simp add: state_machine_iteration_def assms(1) dispatch_idle[OF assms(2)])
  next
    case (Returned r a2)
    obtain status a3 where arm: "ext_call Ev_Motor_arm (Motor_arm w) a2 = (status, a3)" by force
    have tc2: "task_chain a2 = task_chain a1"
      using run_idle_loop_task_chain[of w fuel a1] Returned by simp
    have tc3: "task_chain a3 = task_chain a1" and tr3: "trace a3 = trace a2 @ [Ev_Motor_arm]"
      using ext_call_result[OF arm] tc2 by simp_all
    have st: "status = fst (Motor_arm w a2)"
      using ext_call_fst[of Ev_Motor_arm "Motor_arm w" a2] arm by simp
    have rq: "requested_state a2 \<noteq> AXIS_STATE_UNDEFINED"
      using run_idle_loop_returns_with_request[OF Returned] .
    have e2: "trace a2 = trace a1 @ Ev_safety_critical_disarm_motor_pwm # evs"
      using e Returned by simp
    have it: "state_machine_iteration w fuel a = Inr (Returned status (advance_task_chain status a3))"
      by (simp add: state_machine_iteration_def assms(1) dispatch_idle[OF assms(2)] Returned arm
            returned_def)
    have idle: "\<not> status \<Longrightarrow> current_state (advance_task_chain status a3) = AXIS_STATE_IDLE"
      using assms(3) by (simp add: advance_task_chain_def set_current_state_def current_state_def tc3)
    have tr: "\<And>b. trace (advance_task_chain b a3) = trace a3"
      by (simp add: advance_task_chain_def set_current_state_def)
    have "set evs \<subseteq> scaffold_events \<and>
           (case state_machine_iteration w fuel a of
              Inl f \<Rightarrow> False
            | Inr (Out_of_fuel a') \<Rightarrow>
                trace a' = trace a1 @ Ev_safety_critical_disarm_motor_pwm # evs
            | Inr (Returned status a') \<Rightarrow>
                trace a' = trace a1 @ Ev_safety_critical_disarm_motor_pwm # evs @ [Ev_Motor_arm] \<and>
                (\<exists>r a2. run_idle_loop w fuel a1 = Returned r a2 \<and>
                        requested_state a2 \<noteq> AXIS_STATE_UNDEFINED \<and>
                        status = fst (Motor_arm w a2)) \<and>
                (\<not> status \<longrightarrow> current_state a' = AXIS_STATE_IDLE))"
      using s idle st rq Returned by (simp add: it tr tr3 e2)
    then show ?thesis by blast
  qed
qed

text \<open>A pending request for a single state is at the head of the chain once loaded.\<close>

lemma pending_request_is_loaded:
  assumes "requested_state a \<noteq> AXIS_STATE_UNDEFINED"
    "requested_state a \<noteq> AXIS_STATE_STARTUP_SEQUENCE"
    "requested_state a \<noteq> AXIS_STATE_FULL_CALIBRATION_SEQUENCE"
    "6 \<le> length (task_chain a)"
  shows "\<exists>a'. load_task_chain w a = Inr a' \<and> current_state a' = requested_state a"
proof -
  from assms(4) obtain x0 x1 x2 x3 x4 x5 ys where
    tc: "task_chain a = x0 # x1 # x2 # x3 # x4 # x5 # ys"
    by (rule six_list)
  show ?thesis
    using assms(1-3) by (simp add: load_task_chain_def tc Let_def current_state_def)
qed

text \<open>
  Claim C1 says that a failed arming on leaving idle keeps the axis in idle. The run
  below starts idle with no request; closed-loop control is requested during the
  second idle tick and \<^verbatim>\<open>motor_.arm()\<close> then fails. The iteration ends with
  \<^verbatim>\<open>AXIS_STATE_IDLE\<close> current, the motor unarmed and the request still pending. The
  next iteration loads the request, so that \<^verbatim>\<open>AXIS_STATE_CLOSED_LOOP_CONTROL\<close> is
  the current state, and runs a closed-loop tick (\<^verbatim>\<open>controller_.update\<close> and
  \<^verbatim>\<open>motor_.update\<close> are called) before \<^verbatim>\<open>do_checks\<close> latches
  \<^verbatim>\<open>ERROR_MOTOR_DISARMED\<close> and the task fails.
\<close>

theorem arm_failure_does_not_keep_idle:
  "state_machine_iteration failing_arm_world 3 bench_axis = Inr (Returned False idle_exit_axis) \<and>
   current_state idle_exit_axis = AXIS_STATE_IDLE \<and>
   \<not> is_armed (motor idle_exit_axis) \<and>
   requested_state idle_exit_axis = AXIS_STATE_CLOSED_LOOP_CONTROL \<and>
   load_task_chain failing_arm_world idle_exit_axis
     = Inr (idle_exit_axis
          \<lparr>requested_state := AXIS_STATE_UNDEFINED,
           task_chain := [AXIS_STATE_CLOSED_LOOP_CONTROL, AXIS_STATE_IDLE, AXIS_STATE_UNDEFINED,
                          AXIS_STATE_UNDEFINED, AXIS_STATE_UNDEFINED, AXIS_STATE_UNDEFINED,
                          AXIS_STATE_UNDEFINED, AXIS_STATE_UNDEFINED, AXIS_STATE_UNDEFINED,
                          AXIS_STATE_UNDEFINED]\<rparr>) \<and>
   state_machine_iteration failing_arm_world 3 idle_exit_axis
     = Inr (Returned False
         (idle_exit_axis
            \<lparr>requested_state := AXIS_STATE_UNDEFINED,
             error := 0x20,
             task_chain := [AXIS_STATE_IDLE, AXIS_STATE_IDLE, AXIS_STATE_UNDEFINED,
                            AXIS_STATE_UNDEFINED, AXIS_STATE_UNDEFINED, AXIS_STATE_UNDEFINED,
                            AXIS_STATE_UNDEFINED, AXIS_STATE_UNDEFINED, AXIS_STATE_UNDEFINED,
                            AXIS_STATE_UNDEFINED],
             trace := trace idle_exit_axis @
                      [Ev_gpio_deinit 1, Ev_gpio_deinit 2,
                       Ev_osSignalWait, Ev_Encoder_update, Ev_SensorlessEstimator_update,
                       Ev_Controller_update 0 0, Ev_Motor_update 0 0 0,
                       Ev_Motor_do_checks, Ev_Encoder_do_checks,
                       Ev_gpio_deinit 1, Ev_gpio_deinit 2]\<rparr>))"
proof -
  have first: "state_machine_iteration failing_arm_world 3 bench_axis
                 = Inr (Returned False idle_exit_axis)"
    by (simp add: state_machine_iteration_def load_task_chain_def dispatch_def current_state_def
          run_idle_loop_def return_check_for_errors_def check_for_errors_def
          wait_for_current_meas_def do_updates_def do_checks_def watchdog_check_def
          no_locals_def idle_tick_def numeral_3_eq_3
          ext_call_def returned_def advance_task_chain_def set_current_state_def
          failing_arm_world_def idle_exit_axis_def bench_axis_def bench_world_def Let_def)
  have state: "current_state idle_exit_axis = AXIS_STATE_IDLE \<and>
               \<not> is_armed (motor idle_exit_axis) \<and>
               requested_state idle_exit_axis = AXIS_STATE_CLOSED_LOOP_CONTROL"
    by (simp add: idle_exit_axis_def bench_axis_def current_state_def)
  have load: "load_task_chain failing_arm_world idle_exit_axis
     = Inr (idle_exit_axis
          \<lparr>requested_state := AXIS_STATE_UNDEFINED,
           task_chain := [AXIS_STATE_CLOSED_LOOP_CONTROL, AXIS_STATE_IDLE, AXIS_STATE_UNDEFINED,
                          AXIS_STATE_UNDEFINED, AXIS_STATE_UNDEFINED, AXIS_STATE_UNDEFINED,
                          AXIS_STATE_UNDEFINED, AXIS_STATE_UNDEFINED, AXIS_STATE_UNDEFINED,
                          AXIS_STATE_UNDEFINED]\<rparr>)"
    by (simp add: load_task_chain_def failing_arm_world_def idle_exit_axis_def bench_axis_def
          bench_world_def)
  have second: "state_machine_iteration failing_arm_world 3 idle_exit_axis
     = Inr (Returned False
         (idle_exit_axis
            \<lparr>requested_state := AXIS_STATE_UNDEFINED,
             error := 0x20,
             task_chain := [AXIS_STATE_IDLE, AXIS_STATE_IDLE, AXIS_STATE_UNDEFINED,
                            AXIS_STATE_UNDEFINED, AXIS_STATE_UNDEFINED, AXIS_STATE_UNDEFINED,
                            AXIS_STATE_UNDEFINED, AXIS_STATE_UNDEFINED, AXIS_STATE_UNDEFINED,
                            AXIS_STATE_UNDEFINED],
             trace := trace idle_exit_axis @
                      [Ev_gpio_deinit 1, Ev_gpio_deinit 2,
                       Ev_osSignalWait, Ev_Encoder_update, Ev_SensorlessEstimator_update,
                       Ev_Controller_update 0 0, Ev_Motor_update 0 0 0,
                       Ev_Motor_do_checks, Ev_Encoder_do_checks,
                       Ev_gpio_deinit 1, Ev_gpio_deinit 2]\<rparr>))"
    by (simp add: state_machine_iteration_def load_task_chain_def dispatch_def current_state_def
          run_closed_loop_control_loop_def closed_loop_tick_def set_step_dir_active_def
          gpio_deinit_if_def log_event_def set_error_def check_for_errors_def
          wait_for_current_meas_def do_updates_def do_checks_def watchdog_check_def
          no_locals_def numeral_3_eq_3
          ext_call_def returned_def advance_task_chain_def set_current_state_def
          failing_arm_world_def idle_exit_axis_def bench_axis_def bench_world_def
          bench_config_def Let_def)
  show ?thesis using first state load second by blast
qed

subsection \<open>Tick bodies\<close>

text \<open>
  Claim C3. A sensorless tick with \<^verbatim>\<open>control_mode >= CTRL_MODE_POSITION_CONTROL\<close>
  returns false with \<^verbatim>\<open>ERROR_POS_CTRL_DURING_SENSORLESS\<close> set and nothing else
  changed; it makes no call (the history is unchanged), and its result does not
  depend on what \<^verbatim>\<open>controller_.update\<close> and \<^verbatim>\<open>motor_.update\<close> would do.
\<close>

theorem sensorless_tick_rejects_position_control:
  assumes "CTRL_MODE_POSITION_CONTROL w \<le> control_mode (controller a)"
  shows "sensorless_tick w a
           = (False, a\<lparr>error := error a OR ERROR_POS_CTRL_DURING_SENSORLESS w\<rparr>) \<and>
         trace (snd (sensorless_tick w a)) = trace a \<and>
         sensorless_tick (w\<lparr>Controller_update := cu, Motor_update := mu\<rparr>) a
           = sensorless_tick w a"
  using assms by (simp add: sensorless_tick_def set_error_def)

theorem sensorless_tick_rejects_position_control_witness:
  "sensorless_tick bench_world bench_axis = (False, bench_axis\<lparr>error := 0x400\<rparr>)"
  using sensorless_tick_rejects_position_control[of bench_world bench_axis]
  by (simp add: bench_world_def bench_axis_def)

text \<open>
  Claim C4. An open-loop tick with \<^verbatim>\<open>phase_locked\<close> set: if the sibling is not in
  \<^verbatim>\<open>AXIS_STATE_OPEN_LOOP_CONTROL\<close> it returns false with \<^verbatim>\<open>ERROR_INVALID_STATE\<close> set
  and nothing else changed; otherwise it copies the sibling's \<^verbatim>\<open>phase_setpoint_\<close>
  into its own motor and calls \<^verbatim>\<open>motor_.update\<close> with that phase and with the
  phase velocity of the sibling.
\<close>

theorem open_loop_tick_phase_locked:
  assumes "phase_locked (motor_config (motor a))"
  shows "(current_state (other_axis w a) \<noteq> AXIS_STATE_OPEN_LOOP_CONTROL \<longrightarrow>
            open_loop_tick w a = (False, a\<lparr>error := error a OR ERROR_INVALID_STATE w\<rparr>)) \<and>
         (current_state (other_axis w a) = AXIS_STATE_OPEN_LOOP_CONTROL \<longrightarrow>
            open_loop_tick w a
              = ext_call
                  (Ev_Motor_update (current_setpoint (controller a))
                     (phase_setpoint (motor (other_axis w a)))
                     (2 * pi * vel_setpoint (controller (other_axis w a))
                        * real_of_int (pole_pairs (motor_config (motor (other_axis w a))))))
                  (Motor_update w (current_setpoint (controller a))
                     (phase_setpoint (motor (other_axis w a)))
                     (2 * pi * vel_setpoint (controller (other_axis w a))
                        * real_of_int (pole_pairs (motor_config (motor (other_axis w a))))))
                  (a\<lparr>motor := (motor a)
                        \<lparr>phase_setpoint := phase_setpoint (motor (other_axis w a))\<rparr>\<rparr>))"
  using assms
  by (auto simp add: open_loop_tick_def set_error_def Let_def split: prod.splits)

theorem open_loop_tick_phase_locked_witness:
  "open_loop_tick bench_world phase_locked_axis = (False, phase_locked_axis\<lparr>error := 0x01\<rparr>) \<and>
   open_loop_tick sibling_open_loop_world phase_locked_axis
     = (True, phase_locked_axis
          \<lparr>motor := (motor phase_locked_axis)\<lparr>phase_setpoint := 1 / 2\<rparr>,
           trace := [Ev_Motor_update 0 (1 / 2) (2 * pi * 3 * 7)]\<rparr>)"
  using open_loop_tick_phase_locked[of phase_locked_axis bench_world]
        open_loop_tick_phase_locked[of phase_locked_axis sibling_open_loop_world]
  by (simp add: phase_locked_axis_def sibling_open_loop_world_def bench_world_def bench_axis_def
        current_state_def ext_call_def)

text \<open>
  Claim C10, as the code has it. \<^verbatim>\<open>step_cb\<close> changes nothing when step/dir is
  inactive. When it is active and the direction pin is bound (\<^verbatim>\<open>counts_per_step\<close>
  being a \<^verbatim>\<open>float\<close> and the sum within the \<^verbatim>\<open>float\<close> range), \<^verbatim>\<open>pos_setpoint_\<close>
  becomes the single-precision sum of itself and \<^verbatim>\<open>counts_per_step\<close> if the pin
  reads high, of itself and \<^verbatim>\<open>- counts_per_step\<close> if it reads low, and nothing else
  changes; the step is exactly \<^verbatim>\<open>counts_per_step\<close> whenever the exact sum is a
  \<^verbatim>\<open>float\<close>.
\<close>

theorem step_cb_increments_pos_setpoint:
  "(\<not> step_dir_active a \<longrightarrow> step_cb w a = Inr a) \<and>
   (step_dir_active a \<and> dir_gpio a = Some g \<and>
    binary32 (counts_per_step (config a)) = counts_per_step (config a) \<and>
    float_range (pos_setpoint (controller a)
                   + (if gpio_read w g a then counts_per_step (config a)
                      else - counts_per_step (config a))) \<longrightarrow>
      step_cb w a = Inr (a\<lparr>controller := (controller a)
         \<lparr>pos_setpoint :=
            binary32 (pos_setpoint (controller a)
                        + (if gpio_read w g a then counts_per_step (config a)
                           else - counts_per_step (config a)))\<rparr>\<rparr>)) \<and>
   (step_dir_active a \<and> dir_gpio a = Some g \<and>
    binary32 (counts_per_step (config a)) = counts_per_step (config a) \<and>
    gpio_read w g a \<and>
    float_range (pos_setpoint (controller a) + counts_per_step (config a)) \<and>
    binary32 (pos_setpoint (controller a) + counts_per_step (config a))
      = pos_setpoint (controller a) + counts_per_step (config a) \<longrightarrow>
      step_cb w a = Inr (a\<lparr>controller := (controller a)
         \<lparr>pos_setpoint := pos_setpoint (controller a) + counts_per_step (config a)\<rparr>\<rparr>)) \<and>
   (step_dir_active a \<and> dir_gpio a = Some g \<and>
    binary32 (counts_per_step (config a)) = counts_per_step (config a) \<and>
    \<not> gpio_read w g a \<and>
    float_range (pos_setpoint (controller a) - counts_per_step (config a)) \<and>
    binary32 (pos_setpoint (controller a) - counts_per_step (config a))
      = pos_setpoint (controller a) - counts_per_step (config a) \<longrightarrow>
      step_cb w a = Inr (a\<lparr>controller := (controller a)
         \<lparr>pos_setpoint := pos_setpoint (controller a) - counts_per_step (config a)\<rparr>\<rparr>))"
  by (simp add: step_cb_def binary32_minus)

theorem step_cb_increments_pos_setpoint_witness:
  "step_cb bench_world bench_axis = Inr bench_axis \<and>
   step_cb bench_world (bench_axis\<lparr>step_dir_active := True\<rparr>)
     = Inr (bench_axis\<lparr>step_dir_active := True,
              controller := (controller bench_axis)\<lparr>pos_setpoint := 2\<rparr>\<rparr>) \<and>
   step_cb (bench_world\<lparr>gpio_read := (\<lambda>g a. False)\<rparr>) (bench_axis\<lparr>step_dir_active := True\<rparr>)
     = Inr (bench_axis\<lparr>step_dir_active := True,
              controller := (controller bench_axis)\<lparr>pos_setpoint := - 2\<rparr>\<rparr>)"
  using step_cb_increments_pos_setpoint[of bench_axis bench_world 2]
        step_cb_increments_pos_setpoint[of "bench_axis\<lparr>step_dir_active := True\<rparr>" bench_world 2]
        step_cb_increments_pos_setpoint[of "bench_axis\<lparr>step_dir_active := True\<rparr>"
           "bench_world\<lparr>gpio_read := (\<lambda>g a. False)\<rparr>" 2]
  by (simp add: bench_world_def bench_axis_def bench_config_def binary32_values binary32_minus
        float_range_def)

text \<open>
  A position setpoint of \<open>2 ^ 24\<close> counts with one count a step, the direction pin
  high: setpoint and step are \<^verbatim>\<open>float\<close> values, their sum \<open>2 ^ 24 + 1\<close> is not, and
  the callback leaves the setpoint where it was.
\<close>

theorem step_cb_step_lost_to_rounding:
  "binary32 (pos_setpoint (controller large_setpoint_axis))
     = pos_setpoint (controller large_setpoint_axis) \<and>
   binary32 (counts_per_step (config large_setpoint_axis))
     = counts_per_step (config large_setpoint_axis) \<and>
   step_dir_active large_setpoint_axis \<and>
   dir_gpio large_setpoint_axis = Some 2 \<and>
   gpio_read bench_world 2 large_setpoint_axis \<and>
   float_range (pos_setpoint (controller large_setpoint_axis)
                  + counts_per_step (config large_setpoint_axis)) \<and>
   step_cb bench_world large_setpoint_axis = Inr large_setpoint_axis \<and>
   pos_setpoint (controller large_setpoint_axis)
     \<noteq> pos_setpoint (controller large_setpoint_axis)
         + counts_per_step (config large_setpoint_axis)"
  by (simp add: step_cb_def large_setpoint_axis_def bench_axis_def bench_config_def
        bench_world_def binary32_values binary32_16777217 float_range_def)

text \<open>
  The watchdog settings at 8 kHz for a timeout of ten milliseconds, the \<^verbatim>\<open>float\<close>
  next to \<open>1 / 100\<close>: the product rounds to 80 ticks. For a timeout of 536802
  seconds, the largest whole one below the overflow guard, the product
  4294416000 rounds to the \<^verbatim>\<open>float\<close> 4294415872.
\<close>

lemma update_watchdog_settings_ten_ms:
  "binary32 (10737418 / 2 ^ 30) = 10737418 / 2 ^ 30 \<and>
   watchdog_reset_value
     (update_watchdog_settings bench_world
        (bench_axis\<lparr>config := bench_config\<lparr>watchdog_timeout := 10737418 / 2 ^ 30\<rparr>\<rparr>)) = 80 \<and>
   binary32 536802 = 536802 \<and>
   watchdog_reset_value
     (update_watchdog_settings bench_world
        (bench_axis\<lparr>config := bench_config\<lparr>watchdog_timeout := 536802\<rparr>\<rparr>)) = 4294415872"
proof -
  have t2: "binary32 536802 = 536802"
    using binary32_eval[of 536802 19] by (simp add: powr_neg_numeral)
  have p2: "binary32 (536802 * 8000) = 4294415872"
    using binary32_eval[of "536802 * 8000" 31] by (simp add: round_half_even_def)
  have t: "binary32 (10737418 / 2 ^ 30) = 10737418 / 2 ^ 30"
    using binary32_eval[of "10737418 / 2 ^ 30" "- 7"] by (simp add: powr_neg_numeral)
  have p: "binary32 (10737418 / 2 ^ 30 * 8000) = 80"
    using binary32_eval[of "10737418 / 2 ^ 30 * 8000" 6]
    by (simp add: powr_neg_numeral round_half_even_def)
  have u: "unat UINT32_MAX div (8000 + 1) = 536803"
    by (simp add: UINT32_MAX_def unsigned_minus_1_eq_mask mask_eq_exp_minus_1)
  show ?thesis
    using t p u t2 p2
    by (simp add: update_watchdog_settings_def watchdog_feed_def bench_world_def bench_axis_def
          bench_config_def binary32_values)
qed

subsection \<open>Lock-in spin\<close>

text \<open>
  Claim C9. If \<^verbatim>\<open>spin_done()\<close> holds where the code tests it after the accelerate
  loop, the rest of \<^verbatim>\<open>run_lockin_spin\<close> returns at once, for every bound on the
  loops: the only calls are the index subscription (when the index has not been
  found) and the assignment of \<^verbatim>\<open>LOCKIN_STATE_INACTIVE\<close>; no tick runs and
  \<^verbatim>\<open>lockin_state_\<close> is never assigned \<^verbatim>\<open>LOCKIN_STATE_CONST_VEL\<close>.
\<close>

theorem lockin_const_vel_skipped:
  assumes "spin_done False l (idx_subscribe_if_not_found w a)"
  shows "lockin_spin_const_vel w fuel l a
           = Returned
               (check_for_errors
                  (set_lockin_state LOCKIN_STATE_INACTIVE (idx_subscribe_if_not_found w a)))
               (set_lockin_state LOCKIN_STATE_INACTIVE (idx_subscribe_if_not_found w a)) \<and>
         trace (outcome_axis (lockin_spin_const_vel w fuel l a))
           = trace a
             @ (if index_found (encoder a) then [] else [Ev_Encoder_set_idx_subscribe True])
             @ [Ev_lockin_state LOCKIN_STATE_INACTIVE] \<and>
         lockin_state (outcome_axis (lockin_spin_const_vel w fuel l a)) = LOCKIN_STATE_INACTIVE \<and>
         Ev_lockin_state LOCKIN_STATE_CONST_VEL
           \<notin> set (drop (length (trace a)) (trace (outcome_axis (lockin_spin_const_vel w fuel l a))))"
  using assms
  by (simp add: lockin_spin_const_vel_def Let_def idx_subscribe_if_not_found_def
        set_lockin_state_def log_event_def)

theorem lockin_const_vel_skipped_witness:
  "lockin_spin_const_vel bench_world 0 (200, 0, 40) finish_on_distance_axis
     = Returned True
         (finish_on_distance_axis
            \<lparr>lockin_state := LOCKIN_STATE_INACTIVE,
             trace := [Ev_Encoder_set_idx_subscribe True, Ev_lockin_state LOCKIN_STATE_INACTIVE]\<rparr>)"
  using lockin_const_vel_skipped[of "(200, 0, 40)" bench_world finish_on_distance_axis 0]
  by (simp add: lockin_spin_const_vel_def Let_def idx_subscribe_if_not_found_def
        set_lockin_state_def log_event_def spin_done_def ext_call_def check_for_errors_def
        finish_on_distance_axis_def bench_axis_def bench_world_def bench_config_def
        bench_lockin_def)

lemma add_const_funpow: "((\<lambda>x::real. x + c) ^^ k) x = x + real k * c"
  by (induction k) (simp_all add: algebra_simps)

lemma ramp_advance_funpow:
  "(ramp_advance w lk ^^ k) x = x + real k * (current_meas_period w / ramp_time lk)"
proof -
  have "ramp_advance w lk = (\<lambda>x. x + current_meas_period w / ramp_time lk)"
    by (rule ext) (simp add: ramp_advance_def)
  then show ?thesis by (simp only: add_const_funpow)
qed

lemma wrap_pm_pi_small:
  assumes "0 \<le> y" "y \<le> pi"
  shows "\<bar>wrap_pm_pi y\<bar> = y"
proof (cases "y < pi")
  case True
  have "\<lfloor>(y + pi) / (2 * pi)\<rfloor> = 0"
    using assms True by (simp add: floor_eq_iff)
  then show ?thesis using assms by (simp add: wrap_pm_pi_def)
next
  case False
  then have y: "y = pi" using assms by simp
  have "(pi + pi) / (2 * pi) = 1" by simp
  then have "\<lfloor>(y + pi) / (2 * pi)\<rfloor> = 1" by (simp add: y)
  then show ?thesis by (simp add: wrap_pm_pi_def y)
qed

lemma wrap_pm_pi_mult_pi:
  "wrap_pm_pi (q * pi) = (q - 2 * of_int \<lfloor>(q + 1) / 2\<rfloor>) * pi"
proof -
  have h: "(q * pi + pi) / (2 * pi) = (q + 1) / 2"
    by (simp add: field_simps)
  have "wrap_pm_pi (q * pi) = q * pi - 2 * pi * of_int \<lfloor>(q * pi + pi) / (2 * pi)\<rfloor>"
    by (simp only: wrap_pm_pi_def)
  also have "\<dots> = q * pi - 2 * pi * of_int \<lfloor>(q + 1) / 2\<rfloor>"
    by (simp only: h)
  also have "\<dots> = (q - 2 * of_int \<lfloor>(q + 1) / 2\<rfloor>) * pi"
    by (simp add: algebra_simps)
  finally show ?thesis .
qed

lemma ramp_tick_commands:
  "fst (snd (ramp_tick w x a)) = ramp_advance w (lockin (config a)) x \<and>
   trace (snd (snd (ramp_tick w x a)))
     = trace a @ [Ev_Motor_update (ramp_I_mag (lockin (config a)) x)
                    (ramp_phase (lockin (config a)) x) 0]"
  by (simp add: ramp_tick_def Let_def split_def)

text \<open>
  Claim C6, as the code has it. A ramp tick entered with \<open>x\<close> commands the motor the
  current \<^verbatim>\<open>lockin.current * x\<close> and the phase \<^verbatim>\<open>wrap_pm_pi(ramp_distance * x)\<close> and
  hands \<^verbatim>\<open>x + current_meas_period / ramp_time\<close> to the next tick; \<open>x\<close> starts at 0.
  With positive current, ramp time, ramp distance and tick period, the current
  magnitude commanded at tick \<open>i\<close> is at most the one commanded at any later tick
  \<open>j\<close>, and so is the absolute value of the commanded phase provided the unwrapped
  angle at tick \<open>j\<close> is at most \<open>pi\<close>.
\<close>

theorem ramp_monotone:
  assumes "0 < current lk" "0 < ramp_time lk" "0 < ramp_distance lk"
    "0 < current_meas_period w" "i \<le> j"
  shows "ramp_I_mag lk ((ramp_advance w lk ^^ i) 0) \<le> ramp_I_mag lk ((ramp_advance w lk ^^ j) 0) \<and>
         (ramp_distance lk * (ramp_advance w lk ^^ j) 0 \<le> pi \<longrightarrow>
            \<bar>ramp_phase lk ((ramp_advance w lk ^^ i) 0)\<bar>
              \<le> \<bar>ramp_phase lk ((ramp_advance w lk ^^ j) 0)\<bar>) \<and>
         fst (snd (ramp_tick w x a)) = ramp_advance w (lockin (config a)) x \<and>
         trace (snd (snd (ramp_tick w x a)))
           = trace a @ [Ev_Motor_update (ramp_I_mag (lockin (config a)) x)
                          (ramp_phase (lockin (config a)) x) 0]"
proof -
  define c where "c = current_meas_period w / ramp_time lk"
  define xi where "xi = (ramp_advance w lk ^^ i) 0"
  define xj where "xj = (ramp_advance w lk ^^ j) 0"
  have c: "0 < c" using assms(2,4) by (simp add: c_def)
  have xi: "xi = real i * c" and xj: "xj = real j * c"
    by (simp_all add: xi_def xj_def c_def ramp_advance_funpow)
  have "real i \<le> real j" using assms(5) by simp
  then have le: "xi \<le> xj" unfolding xi xj using c by (intro mult_right_mono) simp_all
  have nn: "0 \<le> xi" unfolding xi using c by simp
  have imag: "current lk * xi \<le> current lk * xj"
    using le assms(1) by (intro mult_left_mono) simp_all
  have dist: "ramp_distance lk * xi \<le> ramp_distance lk * xj"
    using le assms(3) by (intro mult_left_mono) simp_all
  have dnn: "0 \<le> ramp_distance lk * xi" using nn assms(3) by simp
  have ph: "\<bar>wrap_pm_pi (ramp_distance lk * xi)\<bar> \<le> \<bar>wrap_pm_pi (ramp_distance lk * xj)\<bar>"
    if b: "ramp_distance lk * xj \<le> pi"
  proof -
    have "\<bar>wrap_pm_pi (ramp_distance lk * xi)\<bar> = ramp_distance lk * xi"
      using dnn dist b by (intro wrap_pm_pi_small) linarith+
    moreover have "\<bar>wrap_pm_pi (ramp_distance lk * xj)\<bar> = ramp_distance lk * xj"
      using dnn dist b by (intro wrap_pm_pi_small) linarith+
    ultimately show ?thesis using dist by linarith
  qed
  have mono:
    "ramp_I_mag lk ((ramp_advance w lk ^^ i) 0) \<le> ramp_I_mag lk ((ramp_advance w lk ^^ j) 0) \<and>
     (ramp_distance lk * (ramp_advance w lk ^^ j) 0 \<le> pi \<longrightarrow>
        \<bar>ramp_phase lk ((ramp_advance w lk ^^ i) 0)\<bar>
          \<le> \<bar>ramp_phase lk ((ramp_advance w lk ^^ j) 0)\<bar>)"
    unfolding ramp_I_mag_def ramp_phase_def xi_def[symmetric] xj_def[symmetric]
    using imag ph by blast
  show ?thesis
    using mono ramp_tick_commands[of w x a] by blast
qed

theorem ramp_monotone_witness:
  "ramp_I_mag short_ramp_lockin ((ramp_advance bench_world short_ramp_lockin ^^ 1) 0)
     \<le> ramp_I_mag short_ramp_lockin ((ramp_advance bench_world short_ramp_lockin ^^ 3) 0) \<and>
   \<bar>ramp_phase short_ramp_lockin ((ramp_advance bench_world short_ramp_lockin ^^ 1) 0)\<bar>
     \<le> \<bar>ramp_phase short_ramp_lockin ((ramp_advance bench_world short_ramp_lockin ^^ 3) 0)\<bar>"
proof -
  have x3: "(ramp_advance bench_world short_ramp_lockin ^^ 3) 0 = 3 / 4"
    unfolding ramp_advance_funpow
    by (simp add: short_ramp_lockin_def bench_lockin_def bench_world_def)
  have rd: "ramp_distance short_ramp_lockin = 2"
    by (simp add: short_ramp_lockin_def)
  have h: "ramp_distance short_ramp_lockin * (ramp_advance bench_world short_ramp_lockin ^^ 3) 0 \<le> pi"
    unfolding x3 rd using pi_ge_two by simp
  have p: "0 < current short_ramp_lockin" "0 < ramp_time short_ramp_lockin"
    "0 < ramp_distance short_ramp_lockin" "0 < current_meas_period bench_world"
    by (simp_all add: short_ramp_lockin_def bench_lockin_def bench_world_def)
  have le: "(1::nat) \<le> 3" by simp
  show ?thesis
    using ramp_monotone[OF p le, of 0 bench_axis] h by blast
qed

lemma wrap_pm_pi_ramp_values:
  "wrap_pm_pi 0 = 0"
  "wrap_pm_pi (3 * pi / 4) = 3 * pi / 4"
  "wrap_pm_pi (3 * pi / 2) = - (pi / 2)"
  "wrap_pm_pi (9 * pi / 4) = pi / 4"
  using wrap_pm_pi_mult_pi[of 0] wrap_pm_pi_mult_pi[of "3 / 4"]
    wrap_pm_pi_mult_pi[of "3 / 2"] wrap_pm_pi_mult_pi[of "9 / 4"]
  by simp_all

lemma ramp_run_commands:
  "run_control_loop quiet_world (ramp_tick quiet_world) 4 0 bench_axis
     = Returned 1
        (bench_axis\<lparr>trace :=
           [Ev_osSignalWait, Ev_Encoder_update, Ev_SensorlessEstimator_update,
            Ev_Motor_update 0 0 0, Ev_Motor_do_checks, Ev_Encoder_do_checks,
            Ev_osSignalWait, Ev_Encoder_update, Ev_SensorlessEstimator_update,
            Ev_Motor_update (5 / 2) (3 * pi / 4) 0, Ev_Motor_do_checks, Ev_Encoder_do_checks,
            Ev_osSignalWait, Ev_Encoder_update, Ev_SensorlessEstimator_update,
            Ev_Motor_update 5 (- (pi / 2)) 0, Ev_Motor_do_checks, Ev_Encoder_do_checks,
            Ev_osSignalWait, Ev_Encoder_update, Ev_SensorlessEstimator_update,
            Ev_Motor_update (15 / 2) (pi / 4) 0]\<rparr>)"
  by (simp add: numeral_eq_Suc ramp_tick_def ramp_phase_def ramp_I_mag_def ramp_advance_def
        wait_for_current_meas_def do_updates_def do_checks_def watchdog_check_def
        check_for_errors_def current_state_def ext_call_def Let_def
        quiet_world_def bench_world_def bench_axis_def bench_config_def bench_lockin_def
        wrap_pm_pi_ramp_values)

text \<open>
  A ramp distance of \<open>3 * pi\<close> covered in four ticks, with a current of 10: the
  ramp loop runs its four ticks and returns with \<open>x = 1\<close>; the motor is commanded
  the phases \<open>0\<close>, \<open>3 * pi / 4\<close>, \<open>- pi / 2\<close> and \<open>pi / 4\<close>, so the absolute phase
  falls from the second tick to the third (and again to the fourth), while the
  current magnitude rises.
\<close>

theorem ramp_phase_not_monotone:
  "0 < current bench_lockin \<and> 0 < ramp_time bench_lockin \<and> 0 < ramp_distance bench_lockin \<and>
   run_control_loop quiet_world (ramp_tick quiet_world) 4 0 bench_axis
     = Returned 1
        (bench_axis\<lparr>trace :=
           [Ev_osSignalWait, Ev_Encoder_update, Ev_SensorlessEstimator_update,
            Ev_Motor_update 0 0 0, Ev_Motor_do_checks, Ev_Encoder_do_checks,
            Ev_osSignalWait, Ev_Encoder_update, Ev_SensorlessEstimator_update,
            Ev_Motor_update (5 / 2) (3 * pi / 4) 0, Ev_Motor_do_checks, Ev_Encoder_do_checks,
            Ev_osSignalWait, Ev_Encoder_update, Ev_SensorlessEstimator_update,
            Ev_Motor_update 5 (- (pi / 2)) 0, Ev_Motor_do_checks, Ev_Encoder_do_checks,
            Ev_osSignalWait, Ev_Encoder_update, Ev_SensorlessEstimator_update,
            Ev_Motor_update (15 / 2) (pi / 4) 0]\<rparr>) \<and>
   (ramp_advance bench_world bench_lockin ^^ 1) 0 = 1 / 4 \<and>
   (ramp_advance bench_world bench_lockin ^^ 2) 0 = 1 / 2 \<and>
   ramp_phase bench_lockin (1 / 4) = 3 * pi / 4 \<and>
   ramp_phase bench_lockin (1 / 2) = - (pi / 2) \<and>
   \<bar>ramp_phase bench_lockin ((ramp_advance bench_world bench_lockin ^^ 2) 0)\<bar>
     < \<bar>ramp_phase bench_lockin ((ramp_advance bench_world bench_lockin ^^ 1) 0)\<bar>"
proof -
  have x1: "(ramp_advance bench_world bench_lockin ^^ 1) 0 = 1 / 4"
    and x2: "(ramp_advance bench_world bench_lockin ^^ 2) 0 = 1 / 2"
    unfolding ramp_advance_funpow
    by (simp_all add: bench_lockin_def bench_world_def)
  have p1: "ramp_phase bench_lockin (1 / 4) = 3 * pi / 4"
    using wrap_pm_pi_mult_pi[of "3 / 4"] by (simp add: ramp_phase_def bench_lockin_def)
  have p2: "ramp_phase bench_lockin (1 / 2) = - (pi / 2)"
    using wrap_pm_pi_mult_pi[of "3 / 2"] by (simp add: ramp_phase_def bench_lockin_def)
  have pos: "0 < current bench_lockin \<and> 0 < ramp_time bench_lockin \<and> 0 < ramp_distance bench_lockin"
    by (simp add: bench_lockin_def)
  show ?thesis
    unfolding x1 x2 p1 p2 using pos ramp_run_commands by simp
qed

lemma run_control_loop_stops_when_body_stops:
  assumes "wait_for_current_meas w a = (signalled, a1)"
    "signalled \<or> current_state a1 = AXIS_STATE_IDLE"
    "do_updates w a1 = (True, a2)"
    "body l a2 = (False, l', a3)"
  shows "run_control_loop w body (Suc n) l a = Returned l' a3"
  using assms by auto

lemma run_lockin_spin_after_accelerate:
  assumes "run_control_loop w (ramp_tick w) fuel 0 (set_lockin_state LOCKIN_STATE_RAMP a)
             = Returned x a1"
    "run_control_loop w (accelerate_tick w) fuel
        (ramp_distance (lockin (config a1)), wrap_pm_pi (ramp_distance (lockin (config a1))),
         ramp_distance (lockin (config a1)) / ramp_time (lockin (config a1)))
        (set_lockin_state LOCKIN_STATE_ACCELERATE a1) = Returned l a2"
  shows "run_lockin_spin w fuel a = lockin_spin_const_vel w fuel l a2"
  using assms by (simp add: run_lockin_spin_def Let_def)

end
